theory Spec2Isabelle
  imports Main "HOL-Library.Word"
begin

section \<open>The VirtualRouter controller (internal/daemon/netlink/config.go)\<close>

text \<open>
  The controller is straight-line Go code around four external collaborators: the typed
  clientsets (writes and uncached reads), the listers (cached reads), the work queue and
  the event recorder. The embedding keeps the code's control flow and makes every call to
  a collaborator visible: each function returns its Go result together with the list of
  effects it issued, in program order. What a collaborator answers is a field of the
  \<open>Controller\<close> record, so a theorem quantified over the record holds for every
  behaviour of the cluster.
\<close>

subsection \<open>API objects\<close>

type_synonym int32 = "32 word"

text \<open>metav1.OwnerReference; the two \<open>*bool\<close> fields are options.\<close>

record OwnerReference =
  ref_APIVersion :: string
  ref_Kind :: string
  ref_Name :: string
  ref_UID :: string
  ref_Controller :: "bool option"
  ref_BlockOwnerDeletion :: "bool option"

text \<open>
  metav1.ObjectMeta, restricted to the fields the controller reads or writes. A Go map is a
  partial function (a nil map and an empty map read alike), a slice is a list.
\<close>

record ObjectMeta =
  Name :: string
  Namespace :: string
  UID :: string
  ResourceVersion :: string
  SelfLink :: string
  Labels :: "string \<rightharpoonup> string"
  Annotations :: "string \<rightharpoonup> string"
  Finalizers :: "string list"
  OwnerReferences :: "OwnerReference list"

text \<open>The zero value of ObjectMeta, from which the struct literals of the source start.\<close>

definition ObjectMeta_zero :: ObjectMeta where
  "ObjectMeta_zero =
     \<lparr>Name = [], Namespace = [], UID = [], ResourceVersion = [], SelfLink = [],
      Labels = Map.empty, Annotations = Map.empty, Finalizers = [], OwnerReferences = []\<rparr>"

text \<open>
  corev1.Affinity is passed through and never inspected: its three pointer fields are kept,
  their targets as opaque serialised values.
\<close>

datatype Affinity =
  corev1_Affinity (NodeAffinity: "string option") (PodAffinity: "string option")
                  (PodAntiAffinity: "string option")

text \<open>
  Modelled from the spec: the declaration of samplev1alpha1.VirtualRouter (package
  internal/utils/pkg/apis/networkcontroller/v1, not among the sources). The fields are
  those of the intent object in the specification's section 3, with the types config.go
  reads them at: \<open>Spec.DeploymentName\<close>, \<open>Spec.Replicas\<close> (a \<open>*int32\<close>),
  \<open>Spec.Image\<close>, \<open>Spec.NodeSelector\<close> (a slice of key/value pairs, which
  newDeployment ranges over), \<open>Spec.Affinity\<close> (a value, the source takes its address)
  and \<open>Status.AvailableReplicas\<close>.
\<close>

record NodeSelector =
  Key :: string
  Value :: string

record VirtualRouterSpec =
  DeploymentName :: string
  Replicas :: "int32 option"
  Image :: string
  NodeSelector :: "NodeSelector list"
  Affinity :: Affinity

record VirtualRouterStatus =
  AvailableReplicas :: int32

record VirtualRouter =
  vr_ObjectMeta :: ObjectMeta
  vr_Spec :: VirtualRouterSpec
  vr_Status :: VirtualRouterStatus

text \<open>appsv1.Deployment down to the fields newDeployment sets and syncHandler reads.\<close>

record EnvVar =
  env_Name :: string
  env_Value :: string

record Capabilities =
  cap_Add :: "string list"

record SecurityContext =
  sc_Capabilities :: "Capabilities option"
  sc_Privileged :: "bool option"

record Container =
  ctr_Name :: string
  ctr_Image :: string
  ctr_ImagePullPolicy :: string
  ctr_Env :: "EnvVar list"
  ctr_SecurityContext :: "SecurityContext option"

record PodSpec =
  pod_Affinity :: "Affinity option"
  pod_ServiceAccountName :: string
  pod_NodeSelector :: "string \<rightharpoonup> string"
  pod_Containers :: "Container list"

record PodTemplateSpec =
  tmpl_ObjectMeta :: ObjectMeta
  tmpl_Spec :: PodSpec

record LabelSelector =
  sel_MatchLabels :: "string \<rightharpoonup> string"

record DeploymentSpec =
  depl_Replicas :: "int32 option"
  depl_Selector :: "LabelSelector option"
  depl_Template :: PodTemplateSpec

record DeploymentStatus =
  depl_AvailableReplicas :: int32

record Deployment =
  depl_ObjectMeta :: ObjectMeta
  depl_Spec :: DeploymentSpec
  depl_Status :: DeploymentStatus

text \<open>The supporting objects: corev1.Namespace, corev1.ServiceAccount, rbac Role, RoleBinding.\<close>

record NamespaceObject =
  nso_ObjectMeta :: ObjectMeta

record ServiceAccount =
  sa_ObjectMeta :: ObjectMeta

record PolicyRule =
  rule_APIGroups :: "string list"
  rule_Resources :: "string list"
  rule_Verbs :: "string list"

record Role =
  role_ObjectMeta :: ObjectMeta
  role_Rules :: "PolicyRule list"

record RoleRef =
  rr_APIGroup :: string
  rr_Kind :: string
  rr_Name :: string

record Subject =
  subj_Kind :: string
  subj_Name :: string

record RoleBinding =
  rb_ObjectMeta :: ObjectMeta
  rb_RoleRef :: RoleRef
  rb_Subjects :: "Subject list"

subsection \<open>Constants of config.go\<close>

definition controllerAgentName :: string where
  "controllerAgentName = ''virtual-router''"

definition SERVICE_ACCOUNT_NAME :: string where
  "SERVICE_ACCOUNT_NAME = ''virtualrouter-sa''"

definition ROLE_NAME :: string where
  "ROLE_NAME = ''virtualrouter-role''"

definition ROLE_BINDING_NAME :: string where
  "ROLE_BINDING_NAME = ''virtualrouter-rb''"

definition VIRTUALROUTER_LABEL :: string where
  "VIRTUALROUTER_LABEL = ''virtualrouterInstance''"

definition VIRTUALROUTER_DAEMON_FINALIZER :: string where
  "VIRTUALROUTER_DAEMON_FINALIZER = ''virtualrouter/daemon-finalizer''"

definition SuccessSynced :: string where
  "SuccessSynced = ''Synced''"

definition ErrResourceExists :: string where
  "ErrResourceExists = ''ErrResourceExists''"

definition MessageResourceExists :: string where
  "MessageResourceExists = ''Resource %q already exists and is not managed by VirtualRouter''"

definition MessageResourceSynced :: string where
  "MessageResourceSynced = ''VirtualRouter synced successfully''"

definition networkGroupName :: string where
  "networkGroupName = ''network.tmaxanc.com''"

definition EventTypeNormal :: string where
  "EventTypeNormal = ''Normal''"

definition EventTypeWarning :: string where
  "EventTypeWarning = ''Warning''"

text \<open>
  Two constants come from packages that are not among the sources:
  \<open>samplev1alpha1.SchemeGroupVersion\<close> and \<open>virtualrouter.GroupName\<close>. They are
  parameters of every function that uses them.
\<close>

record GroupVersion =
  gv_Group :: string
  gv_Version :: string

record GroupVersionKind =
  gvk_Group :: string
  gvk_Version :: string
  gvk_Kind :: string

record Imports =
  SchemeGroupVersion :: GroupVersion
  GroupName :: string

subsection \<open>Library functions of k8s.io/apimachinery and client-go used by the code\<close>

text \<open>
  These belong to the Kubernetes libraries, not to the repository; each is written after
  the library's documented behaviour.
\<close>

text \<open>\<open>GroupVersion.WithKind\<close> and \<open>GroupVersion.String\<close>.\<close>

definition WithKind :: "GroupVersion \<Rightarrow> string \<Rightarrow> GroupVersionKind" where
  "WithKind gv kind = \<lparr>gvk_Group = gv_Group gv, gvk_Version = gv_Version gv, gvk_Kind = kind\<rparr>"

definition GroupVersion_String :: "GroupVersionKind \<Rightarrow> string" where
  "GroupVersion_String gvk =
     (if gvk_Group gvk \<noteq> [] then gvk_Group gvk @ ''/'' @ gvk_Version gvk
      else gvk_Version gvk)"

text \<open>\<open>metav1.NewControllerRef(owner, gvk)\<close>: an owner reference with both flags true.\<close>

definition NewControllerRef :: "ObjectMeta \<Rightarrow> GroupVersionKind \<Rightarrow> OwnerReference" where
  "NewControllerRef owner gvk =
     \<lparr>ref_APIVersion = GroupVersion_String gvk, ref_Kind = gvk_Kind gvk,
      ref_Name = Name owner, ref_UID = UID owner,
      ref_Controller = Some True, ref_BlockOwnerDeletion = Some True\<rparr>"

text \<open>\<open>metav1.GetControllerOf\<close>: the first owner reference whose Controller flag is set and true.\<close>

fun GetControllerOfRefs :: "OwnerReference list \<Rightarrow> OwnerReference option" where
  "GetControllerOfRefs [] = None"
| "GetControllerOfRefs (r # rs) =
     (if ref_Controller r = Some True then Some r else GetControllerOfRefs rs)"

definition GetControllerOf :: "ObjectMeta \<Rightarrow> OwnerReference option" where
  "GetControllerOf obj = GetControllerOfRefs (OwnerReferences obj)"

text \<open>\<open>metav1.IsControlledBy(obj, owner)\<close>: the controller reference exists and has the owner's UID.\<close>

definition IsControlledBy :: "ObjectMeta \<Rightarrow> ObjectMeta \<Rightarrow> bool" where
  "IsControlledBy obj owner =
     (case GetControllerOf obj of None \<Rightarrow> False | Some r \<Rightarrow> ref_UID r = UID owner)"

text \<open>\<open>strings.Split(s, "/")\<close>: the pieces between the separators, one more than there are slashes.\<close>

fun split_slash :: "string \<Rightarrow> string list" where
  "split_slash [] = [] # []"
| "split_slash (c # cs) =
     (if c = CHR ''/'' then [] # split_slash cs
      else (case split_slash cs of
              [] \<Rightarrow> [c] # []
            | p # ps \<Rightarrow> (c # p) # ps))"


subsection \<open>Values of type \<open>interface{}\<close>, errors and formatted text\<close>

text \<open>
  The work queue and the informer callbacks carry \<open>interface{}\<close> values. The dynamic types
  that matter to the code are: a string, the two watched object kinds, the informer's
  \<open>cache.DeletedFinalStateUnknown\<close> tombstone (a key and another \<open>interface{}\<close>), and
  anything else.
\<close>

datatype any =
    AString string
  | ADeployment Deployment
  | AVirtualRouter VirtualRouter
  | ADeletedFinalStateUnknown string any
  | AOther

text \<open>
  A Go \<open>error\<close> is either a status error of the API machinery (with its reason, which is
  what \<open>errors.IsNotFound\<close> inspects) or built by \<open>fmt.Errorf\<close>. Formatting is not
  rendered: a formatted text is the format string with its arguments. An argument is a
  string, a number, the text of an error (\<open>err.Error()\<close> under \<open>%s\<close>), any value, the
  result of \<open>fmt.Sprintf\<close>, or an error handed to the verb \<open>%w\<close>, which the new error
  wraps. \<open>ErrorfText m\<close> is \<open>fmt.Errorf(m)\<close> for a computed string \<open>m\<close> used as the
  format; it has no argument and wraps nothing.
\<close>

datatype error =
    StatusError string string
  | Errorf string "fmtarg list"
  | ErrorfText fmtarg
and fmtarg =
    ArgStr string
  | ArgInt32 int32
  | ArgError error
  | ArgWrapped error
  | ArgAny any
  | Sprintf string "fmtarg list"

definition StatusReasonNotFound :: string where
  "StatusReasonNotFound = ''NotFound''"

text \<open>
  \<open>errors.IsNotFound\<close> looks for a status error with \<open>errors.As\<close>: the error itself or,
  going through the errors it wraps in order and depth first, the first status error
  found; that one's reason decides. \<open>APIStatusOf\<close> is this search, returning reason and
  message.
\<close>

fun APIStatusOf :: "error \<Rightarrow> (string \<times> string) option"
and APIStatusOfArgs :: "fmtarg list \<Rightarrow> (string \<times> string) option"
and APIStatusOfArg :: "fmtarg \<Rightarrow> (string \<times> string) option" where
  "APIStatusOf (StatusError reason msg) = Some (reason, msg)"
| "APIStatusOf (Errorf f args) = APIStatusOfArgs args"
| "APIStatusOf (ErrorfText m) = None"
| "APIStatusOfArgs [] = None"
| "APIStatusOfArgs (a # rest) =
     (case APIStatusOfArg a of Some s \<Rightarrow> Some s | None \<Rightarrow> APIStatusOfArgs rest)"
| "APIStatusOfArg (ArgWrapped err) = APIStatusOf err"
| "APIStatusOfArg (ArgStr s) = None"
| "APIStatusOfArg (ArgInt32 n) = None"
| "APIStatusOfArg (ArgError err) = None"
| "APIStatusOfArg (ArgAny v) = None"
| "APIStatusOfArg (Sprintf f args) = None"

definition IsNotFound :: "error \<Rightarrow> bool" where
  "IsNotFound err =
     (case APIStatusOf err of
        Some (reason, msg) \<Rightarrow> reason = StatusReasonNotFound
      | None \<Rightarrow> False)"

text \<open>
  \<open>cache.SplitMetaNamespaceKey\<close>: one piece is a name without namespace, two pieces are
  namespace and name, anything else is an error.
\<close>

definition SplitMetaNamespaceKey :: "string \<Rightarrow> error + (string \<times> string)" where
  "SplitMetaNamespaceKey key =
     (case split_slash key of
        [n] \<Rightarrow> Inr ([], n)
      | [ns, n] \<Rightarrow> Inr (ns, n)
      | _ \<Rightarrow> Inl (Errorf ''unexpected key format: %q'' [ArgStr key]))"

text \<open>\<open>meta.Accessor\<close>: the object metadata of a value that is an API object.\<close>

fun Accessor :: "any \<Rightarrow> ObjectMeta option" where
  "Accessor (ADeployment d) = Some (depl_ObjectMeta d)"
| "Accessor (AVirtualRouter v) = Some (vr_ObjectMeta v)"
| "Accessor (AString s) = None"
| "Accessor (ADeletedFinalStateUnknown k obj) = None"
| "Accessor AOther = None"

text \<open>\<open>cache.MetaNamespaceKeyFunc\<close>: \<open>namespace/name\<close>, or the name alone when the namespace is empty.\<close>

definition MetaNamespaceKeyFunc :: "any \<Rightarrow> error + string" where
  "MetaNamespaceKeyFunc obj =
     (case Accessor obj of
        None \<Rightarrow> Inl (Errorf ''object has no meta: %v'' [ArgStr ''object does not implement the Object interfaces''])
      | Some m \<Rightarrow>
          Inr (if Namespace m \<noteq> [] then Namespace m @ ''/'' @ Name m else Name m))"

subsection \<open>Effects and the controller's collaborators\<close>

text \<open>
  One constructor per call the code makes to a collaborator, with the call's arguments.
  Calls through the typed clientsets are named after the resource and the verb; the two
  lister reads are cached reads.
\<close>

datatype Effect =
    KlogInfo "fmtarg list"
  | KlogInfof string "fmtarg list"
  | KlogError error
  | HandleError error
  | VirtualRoutersListerGet string string
  | DeploymentsListerGet string string
  | NamespacesGet string
  | NamespacesCreate NamespaceObject
  | ServiceAccountsGet string string
  | ServiceAccountsCreate string ServiceAccount
  | RolesGet string string
  | RolesCreate string Role
  | RoleBindingsGet string string
  | RoleBindingsCreate string RoleBinding
  | DeploymentsCreate string Deployment
  | DeploymentsUpdate string Deployment
  | VirtualRoutersUpdate string VirtualRouter
  | RecorderEvent VirtualRouter string string fmtarg
  | WorkqueueGet
  | WorkqueueAdd string
  | WorkqueueAddRateLimited string
  | WorkqueueForget any
  | WorkqueueDone any

text \<open>
  The Controller struct, as what its collaborators answer. A call that returns
  \<open>(object, error)\<close> answers with a sum: the code never reads the object when the error is
  non-nil, and the listers and clientsets return a non-nil object when it is nil. Where the
  code discards the object (\<open>_, err := ...\<close>) the answer is the error alone.
  \<open>klog_v\<close> is the process's log verbosity, on which the \<open>klog.V(4)\<close> lines depend.
\<close>

record Controller =
  virtualRoutersLister :: "string \<Rightarrow> string \<Rightarrow> error + VirtualRouter"
  deploymentsLister :: "string \<Rightarrow> string \<Rightarrow> error + Deployment"
  Namespaces_Get :: "string \<Rightarrow> error option"
  Namespaces_Create :: "NamespaceObject \<Rightarrow> error option"
  ServiceAccounts_Get :: "string \<Rightarrow> string \<Rightarrow> error option"
  ServiceAccounts_Create :: "string \<Rightarrow> ServiceAccount \<Rightarrow> error option"
  Roles_Get :: "string \<Rightarrow> string \<Rightarrow> error option"
  Roles_Create :: "string \<Rightarrow> Role \<Rightarrow> error option"
  RoleBindings_Get :: "string \<Rightarrow> string \<Rightarrow> error option"
  RoleBindings_Create :: "string \<Rightarrow> RoleBinding \<Rightarrow> error option"
  Deployments_Create :: "string \<Rightarrow> Deployment \<Rightarrow> error + Deployment"
  Deployments_Update :: "string \<Rightarrow> Deployment \<Rightarrow> error + Deployment"
  VirtualRouters_Update :: "string \<Rightarrow> VirtualRouter \<Rightarrow> error option"
  workqueue_Get :: "any \<times> bool"
  klog_v :: nat

text \<open>A Go call either returns or panics (here: on a nil pointer dereference).\<close>

datatype 'a go = Return 'a | Panic

text \<open>\<open>klog.V(4).Infof\<close>: written only at verbosity 4 or more.\<close>

definition klog_V4_Infof :: "Controller \<Rightarrow> string \<Rightarrow> fmtarg list \<Rightarrow> Effect list" where
  "klog_V4_Infof c f args = (if 4 \<le> klog_v c then [KlogInfof f args] else [])"

subsection \<open>newDeployment (lines 423-490)\<close>

text \<open>The loop over \<open>Spec.NodeSelector\<close>: each entry is stored under its key, in slice order.\<close>

fun nodeSelectorLoop :: "NodeSelector list \<Rightarrow> (string \<rightharpoonup> string) \<Rightarrow> (string \<rightharpoonup> string)" where
  "nodeSelectorLoop [] nodeSelectorMap = nodeSelectorMap"
| "nodeSelectorLoop (nodeSelector # rest) nodeSelectorMap =
     nodeSelectorLoop rest (nodeSelectorMap(Key nodeSelector \<mapsto> Value nodeSelector))"

definition newDeployment :: "Imports \<Rightarrow> string \<Rightarrow> VirtualRouter \<Rightarrow> Deployment" where
  "newDeployment imp newNS virtualRouter =
     (let labels = [''app'' \<mapsto> VIRTUALROUTER_LABEL];
          nodeSelectorMap = nodeSelectorLoop (NodeSelector (vr_Spec virtualRouter)) Map.empty
      in \<lparr>depl_ObjectMeta = ObjectMeta_zero
            \<lparr>Name := DeploymentName (vr_Spec virtualRouter),
             Namespace := newNS,
             OwnerReferences :=
               [NewControllerRef (vr_ObjectMeta virtualRouter)
                  (WithKind (SchemeGroupVersion imp) ''VirtualRouter'')]\<rparr>,
          depl_Spec =
            \<lparr>depl_Replicas = Replicas (vr_Spec virtualRouter),
             depl_Selector = Some \<lparr>sel_MatchLabels = labels\<rparr>,
             depl_Template =
               \<lparr>tmpl_ObjectMeta = ObjectMeta_zero
                  \<lparr>Labels := labels,
                   Annotations :=
                     [''customresourceName'' \<mapsto> Name (vr_ObjectMeta virtualRouter),
                      ''customresourceNamespace'' \<mapsto> Namespace (vr_ObjectMeta virtualRouter)],
                   Finalizers := [VIRTUALROUTER_DAEMON_FINALIZER]\<rparr>,
                tmpl_Spec =
                  \<lparr>pod_Affinity = Some (Affinity (vr_Spec virtualRouter)),
                   pod_ServiceAccountName = ''virtualrouter-sa'',
                   pod_NodeSelector = nodeSelectorMap,
                   pod_Containers =
                     [\<lparr>ctr_Name = Name (vr_ObjectMeta virtualRouter),
                       ctr_Image = Image (vr_Spec virtualRouter),
                       ctr_ImagePullPolicy = ''Always'',
                       ctr_Env = [\<lparr>env_Name = ''POD_NAMESPACE'', env_Value = newNS\<rparr>],
                       ctr_SecurityContext =
                         Some \<lparr>sc_Capabilities =
                                 Some \<lparr>cap_Add = [''NET_RAW'', ''NET_ADMIN'', ''SYS_ADMIN'']\<rparr>,
                               sc_Privileged = Some True\<rparr>\<rparr>]\<rparr>\<rparr>\<rparr>,
          depl_Status = \<lparr>depl_AvailableReplicas = 0\<rparr>\<rparr>)"


subsection \<open>The four ensure functions (lines 492-626)\<close>

text \<open>
  Each returns the Go error (\<open>None\<close> is nil) and the effects it issued. Every created
  object carries the same owner reference,
  \<open>*metav1.NewControllerRef(virtualRouter, SchemeGroupVersion.WithKind("VirtualRouter"))\<close>.
\<close>

definition ownerReferenceTo :: "Imports \<Rightarrow> VirtualRouter \<Rightarrow> OwnerReference" where
  "ownerReferenceTo imp virtualRouter =
     NewControllerRef (vr_ObjectMeta virtualRouter)
       (WithKind (SchemeGroupVersion imp) ''VirtualRouter'')"

text \<open>The struct literals handed to the four Create calls.\<close>

definition serviceAccountLiteral :: "Imports \<Rightarrow> string \<Rightarrow> VirtualRouter \<Rightarrow> ServiceAccount" where
  "serviceAccountLiteral imp newNS virtualRouter =
     \<lparr>sa_ObjectMeta = ObjectMeta_zero
        \<lparr>Name := SERVICE_ACCOUNT_NAME,
         Namespace := newNS,
         OwnerReferences := [ownerReferenceTo imp virtualRouter]\<rparr>\<rparr>"

definition roleLiteral :: "Imports \<Rightarrow> string \<Rightarrow> VirtualRouter \<Rightarrow> Role" where
  "roleLiteral imp newNS virtualRouter =
     \<lparr>role_ObjectMeta = ObjectMeta_zero
        \<lparr>Name := ROLE_NAME,
         Namespace := newNS,
         OwnerReferences := [ownerReferenceTo imp virtualRouter]\<rparr>,
      role_Rules =
        [\<lparr>rule_APIGroups = [GroupName imp],
          rule_Resources = [''natrules'', ''firewallrules'', ''loadbalancerrules''],
          rule_Verbs = [''get'', ''list'', ''watch'', ''create'', ''update'', ''patch'', ''delete'']\<rparr>,
         \<lparr>rule_APIGroups = [networkGroupName],
          rule_Resources = [''vpns''],
          rule_Verbs = [''get'', ''list'', ''watch'']\<rparr>]\<rparr>"

text \<open>\<open>rbac_v1.SchemeGroupVersion.Group\<close> is the group name of the rbac API.\<close>

definition rbac_v1_Group :: string where
  "rbac_v1_Group = ''rbac.authorization.k8s.io''"

definition roleBindingLiteral :: "Imports \<Rightarrow> string \<Rightarrow> VirtualRouter \<Rightarrow> RoleBinding" where
  "roleBindingLiteral imp newNS virtualRouter =
     \<lparr>rb_ObjectMeta = ObjectMeta_zero
        \<lparr>Name := ROLE_BINDING_NAME,
         Namespace := newNS,
         OwnerReferences := [ownerReferenceTo imp virtualRouter]\<rparr>,
      rb_RoleRef = \<lparr>rr_APIGroup = rbac_v1_Group, rr_Kind = ''Role'', rr_Name = ROLE_NAME\<rparr>,
      rb_Subjects = [\<lparr>subj_Kind = ''ServiceAccount'', subj_Name = SERVICE_ACCOUNT_NAME\<rparr>]\<rparr>"

definition namespaceLiteral :: "Imports \<Rightarrow> string \<Rightarrow> VirtualRouter \<Rightarrow> NamespaceObject" where
  "namespaceLiteral imp newNS virtualRouter =
     \<lparr>nso_ObjectMeta = ObjectMeta_zero
        \<lparr>Name := newNS,
         OwnerReferences := [ownerReferenceTo imp virtualRouter]\<rparr>\<rparr>"

definition ensureVirtualRouterSA ::
  "Imports \<Rightarrow> Controller \<Rightarrow> string \<Rightarrow> VirtualRouter \<Rightarrow> error option \<times> Effect list" where
  "ensureVirtualRouterSA imp c newNS virtualRouter =
     (case ServiceAccounts_Get c newNS SERVICE_ACCOUNT_NAME of
        None \<Rightarrow> (None, [ServiceAccountsGet newNS SERVICE_ACCOUNT_NAME])
      | Some err \<Rightarrow>
          if \<not> IsNotFound err
          then (Some err, [ServiceAccountsGet newNS SERVICE_ACCOUNT_NAME, KlogError err])
          else
            (case ServiceAccounts_Create c newNS (serviceAccountLiteral imp newNS virtualRouter) of
               Some err' \<Rightarrow>
                 (Some err',
                  [ServiceAccountsGet newNS SERVICE_ACCOUNT_NAME,
                   ServiceAccountsCreate newNS (serviceAccountLiteral imp newNS virtualRouter),
                   KlogError err'])
             | None \<Rightarrow>
                 (None,
                  [ServiceAccountsGet newNS SERVICE_ACCOUNT_NAME,
                   ServiceAccountsCreate newNS (serviceAccountLiteral imp newNS virtualRouter)])))"

definition ensureVirtualRouterRole ::
  "Imports \<Rightarrow> Controller \<Rightarrow> string \<Rightarrow> VirtualRouter \<Rightarrow> error option \<times> Effect list" where
  "ensureVirtualRouterRole imp c newNS virtualRouter =
     (case Roles_Get c newNS ROLE_NAME of
        None \<Rightarrow> (None, [RolesGet newNS ROLE_NAME])
      | Some err \<Rightarrow>
          if \<not> IsNotFound err
          then (Some err, [RolesGet newNS ROLE_NAME, KlogError err])
          else
            (case Roles_Create c newNS (roleLiteral imp newNS virtualRouter) of
               Some err' \<Rightarrow>
                 (Some err',
                  [RolesGet newNS ROLE_NAME,
                   RolesCreate newNS (roleLiteral imp newNS virtualRouter), KlogError err'])
             | None \<Rightarrow>
                 (None,
                  [RolesGet newNS ROLE_NAME,
                   RolesCreate newNS (roleLiteral imp newNS virtualRouter)])))"

definition ensureVirtualRouterRoleBinding ::
  "Imports \<Rightarrow> Controller \<Rightarrow> string \<Rightarrow> VirtualRouter \<Rightarrow> error option \<times> Effect list" where
  "ensureVirtualRouterRoleBinding imp c newNS virtualRouter =
     (case RoleBindings_Get c newNS ROLE_BINDING_NAME of
        None \<Rightarrow> (None, [RoleBindingsGet newNS ROLE_BINDING_NAME])
      | Some err \<Rightarrow>
          if \<not> IsNotFound err
          then (Some err, [RoleBindingsGet newNS ROLE_BINDING_NAME, KlogError err])
          else
            (case RoleBindings_Create c newNS (roleBindingLiteral imp newNS virtualRouter) of
               Some err' \<Rightarrow>
                 (Some err',
                  [RoleBindingsGet newNS ROLE_BINDING_NAME,
                   RoleBindingsCreate newNS (roleBindingLiteral imp newNS virtualRouter),
                   KlogError err'])
             | None \<Rightarrow>
                 (None,
                  [RoleBindingsGet newNS ROLE_BINDING_NAME,
                   RoleBindingsCreate newNS (roleBindingLiteral imp newNS virtualRouter)])))"

definition ensureVirtualRouterNamespace ::
  "Imports \<Rightarrow> Controller \<Rightarrow> string \<Rightarrow> VirtualRouter \<Rightarrow> error option \<times> Effect list" where
  "ensureVirtualRouterNamespace imp c newNS virtualRouter =
     (case Namespaces_Get c newNS of
        None \<Rightarrow> (None, [NamespacesGet newNS])
      | Some err \<Rightarrow>
          if \<not> IsNotFound err
          then (Some err, [NamespacesGet newNS, KlogError err])
          else
            (case Namespaces_Create c (namespaceLiteral imp newNS virtualRouter) of
               Some err' \<Rightarrow>
                 (Some err',
                  [NamespacesGet newNS,
                   NamespacesCreate (namespaceLiteral imp newNS virtualRouter), KlogError err'])
             | None \<Rightarrow>
                 (None,
                  [NamespacesGet newNS,
                   NamespacesCreate (namespaceLiteral imp newNS virtualRouter)])))"

subsection \<open>updateVirtualRouterStatus (lines 353-365), on an object store\<close>

text \<open>
  The function receives a pointer to the cached VirtualRouter, copies the object and
  assigns to the copy. Whether the cached object is touched depends on which pointer the
  assignment goes through, so the objects live in a store of cells: \<open>cells\<close> maps an
  address to the object there, \<open>next_free\<close> is the next address \<open>new\<close> hands out.
\<close>

record ObjStore =
  cells :: "nat \<rightharpoonup> VirtualRouter"
  next_free :: nat

definition alloc :: "ObjStore \<Rightarrow> VirtualRouter \<Rightarrow> nat \<times> ObjStore" where
  "alloc st v =
     (next_free st, st\<lparr>cells := (cells st)(next_free st \<mapsto> v), next_free := Suc (next_free st)\<rparr>)"

text \<open>
  Modelled from the spec: the generated \<open>VirtualRouter.DeepCopy\<close> (zz_generated.deepcopy.go
  is not among the sources). Following the copy-then-update discipline of the spec's
  section 3, it returns a pointer to a new object whose fields equal those of the
  receiver; on a nil receiver it returns nil.
\<close>

definition DeepCopy :: "ObjStore \<Rightarrow> nat \<Rightarrow> (nat \<times> ObjStore) option" where
  "DeepCopy st p = (case cells st p of None \<Rightarrow> None | Some v \<Rightarrow> Some (alloc st v))"

definition updateVirtualRouterStatus ::
  "Controller \<Rightarrow> ObjStore \<Rightarrow> nat \<Rightarrow> Deployment \<Rightarrow> (error option) go \<times> Effect list \<times> ObjStore" where
  "updateVirtualRouterStatus c st virtualRouter deployment =
     (case DeepCopy st virtualRouter of
        None \<Rightarrow> (Panic, [], st)
      | Some (virtualRouterCopy, st1) \<Rightarrow>
          (case cells st1 virtualRouterCopy of
             None \<Rightarrow> (Panic, [], st1)
           | Some cp \<Rightarrow>
               (let st2 = st1\<lparr>cells := (cells st1)(virtualRouterCopy \<mapsto>
                            cp\<lparr>vr_Status := (vr_Status cp)
                                 \<lparr>AvailableReplicas :=
                                    depl_AvailableReplicas (depl_Status deployment)\<rparr>\<rparr>)\<rparr>
                in case (cells st2 virtualRouter, cells st2 virtualRouterCopy) of
                     (Some v, Some body) \<Rightarrow>
                       (Return (VirtualRouters_Update c (Namespace (vr_ObjectMeta v)) body),
                        [VirtualRoutersUpdate (Namespace (vr_ObjectMeta v)) body], st2)
                   | _ \<Rightarrow> (Panic, [], st2))))"


subsection \<open>syncHandler (lines 250-351)\<close>

text \<open>
  The function is given in four parts, in source order from the end: the status write and
  the success event (lines 342-351), the ownership check and the replica comparison on the
  Deployment in hand (lines 319-340), the lookup or creation of the Deployment
  (lines 303-317), and the entry with parsing, lookup of the intent, validation and the
  supporting objects (lines 250-301). \<open>after t r\<close> puts the effects \<open>t\<close> issued so far before those of \<open>r\<close>.
\<close>

definition after :: "Effect list \<Rightarrow> 'a \<times> Effect list \<Rightarrow> 'a \<times> Effect list" where
  "after t r = (fst r, t @ snd r)"

text \<open>
  The lister hands out a pointer into its cache. In the store that
  updateVirtualRouterStatus works on, the cached object is the cell at address 0.
\<close>

definition cacheStore :: "VirtualRouter \<Rightarrow> ObjStore" where
  "cacheStore virtualRouter = \<lparr>cells = [0 \<mapsto> virtualRouter], next_free = 1\<rparr>"

definition syncHandler_status ::
  "Controller \<Rightarrow> VirtualRouter \<Rightarrow> Deployment \<Rightarrow> (error option) go \<times> Effect list" where
  "syncHandler_status c virtualRouter deployment =
     (case updateVirtualRouterStatus c (cacheStore virtualRouter) 0 deployment of
        (Panic, e, st) \<Rightarrow> (Panic, e)
      | (Return (Some err), e, st) \<Rightarrow> (Return (Some err), e)
      | (Return None, e, st) \<Rightarrow>
          (case cells st 0 of
             None \<Rightarrow> (Panic, e)
           | Some v \<Rightarrow>
               (Return None,
                e @ [RecorderEvent v EventTypeNormal SuccessSynced (ArgStr MessageResourceSynced)])))"

definition syncHandler_converge ::
  "Imports \<Rightarrow> Controller \<Rightarrow> string \<Rightarrow> VirtualRouter \<Rightarrow> string \<Rightarrow> Deployment
     \<Rightarrow> (error option) go \<times> Effect list" where
  "syncHandler_converge imp c name virtualRouter newNS deployment =
     (if \<not> IsControlledBy (depl_ObjectMeta deployment) (vr_ObjectMeta virtualRouter)
      then
        (let msg = Sprintf MessageResourceExists [ArgStr (Name (depl_ObjectMeta deployment))]
         in (Return (Some (ErrorfText msg)),
             [RecorderEvent virtualRouter EventTypeWarning ErrResourceExists msg]))
      else
        (case Replicas (vr_Spec virtualRouter) of
           None \<Rightarrow> syncHandler_status c virtualRouter deployment
         | Some n \<Rightarrow>
             (case depl_Replicas (depl_Spec deployment) of
                None \<Rightarrow> (Panic, [])
              | Some m \<Rightarrow>
                  if n \<noteq> m
                  then
                    (let t = klog_V4_Infof c
                               ''VirtualRouter %s replicas: %d, deployment replicas: %d''
                               [ArgStr name, ArgInt32 n, ArgInt32 m]
                             @ [DeploymentsUpdate newNS (newDeployment imp newNS virtualRouter)]
                     in case Deployments_Update c newNS (newDeployment imp newNS virtualRouter) of
                          Inl err \<Rightarrow> (Return (Some err), t)
                        | Inr deployment' \<Rightarrow>
                            after t (syncHandler_status c virtualRouter deployment'))
                  else syncHandler_status c virtualRouter deployment)))"

definition syncHandler_deployment ::
  "Imports \<Rightarrow> Controller \<Rightarrow> string \<Rightarrow> VirtualRouter \<Rightarrow> string \<Rightarrow> string
     \<Rightarrow> (error option) go \<times> Effect list" where
  "syncHandler_deployment imp c name virtualRouter newNS deploymentName =
     (let t0 = [DeploymentsListerGet newNS deploymentName];
          got = deploymentsLister c newNS deploymentName;
          created =
            (case got of
               Inr d \<Rightarrow> (got, t0)
             | Inl err \<Rightarrow>
                 if IsNotFound err
                 then (Deployments_Create c newNS (newDeployment imp newNS virtualRouter),
                       t0 @ [KlogInfo [ArgStr ''NotFound Deploy start''],
                             DeploymentsCreate newNS (newDeployment imp newNS virtualRouter)])
                 else (got, t0))
      in case fst created of
           Inl err \<Rightarrow> (Return (Some err), snd created)
         | Inr deployment \<Rightarrow>
             after (snd created)
               (syncHandler_converge imp c name virtualRouter newNS deployment))"

definition syncHandler :: "Imports \<Rightarrow> Controller \<Rightarrow> string \<Rightarrow> (error option) go \<times> Effect list" where
  "syncHandler imp c key =
     (case SplitMetaNamespaceKey key of
        Inl err \<Rightarrow>
          (Return None,
           [KlogInfo [ArgStr key],
            HandleError (Errorf ''invalid resource key: %s'' [ArgStr key])])
      | Inr (namespace, name) \<Rightarrow>
          (case virtualRoutersLister c namespace name of
             Inl err \<Rightarrow>
               if IsNotFound err
               then (Return None,
                     [KlogInfo [ArgStr key], VirtualRoutersListerGet namespace name,
                      HandleError (Errorf ''virtualRouter '%s' in work queue no longer exists''
                                     [ArgStr key])])
               else (Return (Some err),
                     [KlogInfo [ArgStr key], VirtualRoutersListerGet namespace name])
           | Inr virtualRouter \<Rightarrow>
               (let deploymentName = DeploymentName (vr_Spec virtualRouter);
                    t0 = [KlogInfo [ArgStr key], VirtualRoutersListerGet namespace name]
                in if deploymentName = []
                   then (Return None,
                         t0 @ [HandleError (Errorf ''%s: deployment name must be specified''
                                              [ArgStr key])])
                   else
                     (let newNS = Name (vr_ObjectMeta virtualRouter)
                      in case ensureVirtualRouterNamespace imp c newNS virtualRouter of
                           (Some err, e1) \<Rightarrow> (Return (Some err), t0 @ e1 @ [KlogError err])
                         | (None, e1) \<Rightarrow>
                      (case ensureVirtualRouterSA imp c newNS virtualRouter of
                           (Some err, e2) \<Rightarrow> (Return (Some err), t0 @ e1 @ e2 @ [KlogError err])
                         | (None, e2) \<Rightarrow>
                      (case ensureVirtualRouterRole imp c newNS virtualRouter of
                           (Some err, e3) \<Rightarrow>
                             (Return (Some err), t0 @ e1 @ e2 @ e3 @ [KlogError err])
                         | (None, e3) \<Rightarrow>
                      (case ensureVirtualRouterRoleBinding imp c newNS virtualRouter of
                           (Some err, e4) \<Rightarrow>
                             (Return (Some err), t0 @ e1 @ e2 @ e3 @ e4 @ [KlogError err])
                         | (None, e4) \<Rightarrow>
                             after (t0 @ e1 @ e2 @ e3 @ e4)
                               (syncHandler_deployment imp c name virtualRouter newNS
                                  deploymentName))))))))"

subsection \<open>processNextWorkItem (lines 194-245)\<close>

text \<open>
  The deferred \<open>workqueue.Done\<close> runs when the inner function returns and also when it
  panics; a panic then leaves processNextWorkItem without a return value.
\<close>

definition processNextWorkItem :: "Imports \<Rightarrow> Controller \<Rightarrow> bool go \<times> Effect list" where
  "processNextWorkItem imp c =
     (case workqueue_Get c of
        (obj, shutdown) \<Rightarrow>
          if shutdown then (Return False, [WorkqueueGet])
          else
            (let inner =
                   (case obj of
                      AString key \<Rightarrow>
                        (case syncHandler imp c key of
                           (Panic, e) \<Rightarrow> (Panic, e)
                         | (Return (Some err), e) \<Rightarrow>
                             (Return (Some (Errorf ''error syncing '%s': %s, requeuing''
                                              [ArgStr key, ArgError err])),
                              e @ [WorkqueueAddRateLimited key])
                         | (Return None, e) \<Rightarrow>
                             (Return None,
                              e @ [WorkqueueForget obj,
                                   KlogInfof (''Successfully synced '%s'' @ [CHR 0x27])
                                     [ArgStr key]]))
                    | _ \<Rightarrow>
                        (Return None,
                         [WorkqueueForget obj,
                          HandleError (Errorf ''expected string in workqueue but got %#v''
                                         [ArgAny obj])]));
                 t = [WorkqueueGet] @ snd inner @ [WorkqueueDone obj]
             in case fst inner of
                  Panic \<Rightarrow> (Panic, t)
                | Return (Some err) \<Rightarrow> (Return True, t @ [HandleError err])
                | Return None \<Rightarrow> (Return True, t)))"

subsection \<open>Event routing (lines 122-149 and 367-418)\<close>

definition enqueueVirtualRouter :: "any \<Rightarrow> Effect list" where
  "enqueueVirtualRouter obj =
     (case MetaNamespaceKeyFunc obj of
        Inl err \<Rightarrow> [HandleError err]
      | Inr key \<Rightarrow> [WorkqueueAdd key])"

definition handleObject :: "Controller \<Rightarrow> any \<Rightarrow> Effect list" where
  "handleObject c obj =
     (let decoded =
            (case Accessor obj of
               Some object \<Rightarrow> Inr (object, [])
             | None \<Rightarrow>
                 (case obj of
                    ADeletedFinalStateUnknown k tombstoneObj \<Rightarrow>
                      (case Accessor tombstoneObj of
                         None \<Rightarrow>
                           Inl [HandleError
                                  (Errorf ''error decoding object tombstone, invalid type'' [])]
                       | Some object \<Rightarrow>
                           Inr (object,
                                klog_V4_Infof c ''Recovered deleted object '%s' from tombstone''
                                  [ArgStr (Name object)]))
                  | _ \<Rightarrow>
                      Inl [HandleError (Errorf ''error decoding object, invalid type'' [])]))
      in case decoded of
           Inl t \<Rightarrow> t
         | Inr (object, t) \<Rightarrow>
             t @ klog_V4_Infof c ''Processing object: %s'' [ArgStr (Name object)]
               @ (case GetControllerOf object of
                    None \<Rightarrow> []
                  | Some ownerRef \<Rightarrow>
                      if ref_Kind ownerRef \<noteq> ''VirtualRouter'' then []
                      else
                        VirtualRoutersListerGet (Namespace object) (ref_Name ownerRef)
                        # (case virtualRoutersLister c (Namespace object) (ref_Name ownerRef) of
                             Inl err \<Rightarrow>
                               klog_V4_Infof c
                                 (''ignoring orphaned object '%s' of virtualRouter '%s''
                                    @ [CHR 0x27])
                                 [ArgStr (SelfLink object), ArgStr (ref_Name ownerRef)]
                           | Inr virtualRouter \<Rightarrow>
                               enqueueVirtualRouter (AVirtualRouter virtualRouter))))"

text \<open>
  The handlers NewController registers. The VirtualRouter informer gets
  \<open>enqueueVirtualRouter\<close> for additions and, applied to the new object, for updates; the
  Deployment informer gets \<open>handleObject\<close> for additions and deletions and the function
  below for updates. Its two type assertions panic on anything but a Deployment.
\<close>

definition virtualRouterUpdateFunc :: "any \<Rightarrow> any \<Rightarrow> Effect list" where
  "virtualRouterUpdateFunc old new = enqueueVirtualRouter new"

definition deploymentUpdateFunc :: "Controller \<Rightarrow> any \<Rightarrow> any \<Rightarrow> unit go \<times> Effect list" where
  "deploymentUpdateFunc c old new =
     (case new of
        ADeployment newDepl \<Rightarrow>
          (case old of
             ADeployment oldDepl \<Rightarrow>
               if ResourceVersion (depl_ObjectMeta newDepl)
                    = ResourceVersion (depl_ObjectMeta oldDepl)
               then (Return (), [])
               else (Return (), handleObject c new)
           | _ \<Rightarrow> (Panic, []))
      | _ \<Rightarrow> (Panic, []))"

subsection \<open>Reading a list of effects\<close>

text \<open>The write calls to the Resource Store: every Create and every Update.\<close>

fun is_write :: "Effect \<Rightarrow> bool" where
  "is_write (NamespacesCreate obj) = True"
| "is_write (ServiceAccountsCreate ns obj) = True"
| "is_write (RolesCreate ns obj) = True"
| "is_write (RoleBindingsCreate ns obj) = True"
| "is_write (DeploymentsCreate ns obj) = True"
| "is_write (DeploymentsUpdate ns obj) = True"
| "is_write (VirtualRoutersUpdate ns obj) = True"
| "is_write e = False"

definition writes :: "Effect list \<Rightarrow> Effect list" where
  "writes t = filter is_write t"


text \<open>Calls that read or create one of the four supporting objects.\<close>

fun is_supporting_call :: "Effect \<Rightarrow> bool" where
  "is_supporting_call (NamespacesGet n) = True"
| "is_supporting_call (NamespacesCreate obj) = True"
| "is_supporting_call (ServiceAccountsGet ns n) = True"
| "is_supporting_call (ServiceAccountsCreate ns obj) = True"
| "is_supporting_call (RolesGet ns n) = True"
| "is_supporting_call (RolesCreate ns obj) = True"
| "is_supporting_call (RoleBindingsGet ns n) = True"
| "is_supporting_call (RoleBindingsCreate ns obj) = True"
| "is_supporting_call e = False"

text \<open>Writes to the managed Deployment or to the intent object.\<close>

fun is_managed_write :: "Effect \<Rightarrow> bool" where
  "is_managed_write (DeploymentsCreate ns obj) = True"
| "is_managed_write (DeploymentsUpdate ns obj) = True"
| "is_managed_write (VirtualRoutersUpdate ns obj) = True"
| "is_managed_write e = False"

fun is_deployment_call :: "Effect \<Rightarrow> bool" where
  "is_deployment_call (DeploymentsListerGet ns n) = True"
| "is_deployment_call (DeploymentsCreate ns obj) = True"
| "is_deployment_call (DeploymentsUpdate ns obj) = True"
| "is_deployment_call e = False"

fun is_deployment_update :: "Effect \<Rightarrow> bool" where
  "is_deployment_update (DeploymentsUpdate ns obj) = True"
| "is_deployment_update e = False"

fun is_deployment_create :: "Effect \<Rightarrow> bool" where
  "is_deployment_create (DeploymentsCreate ns obj) = True"
| "is_deployment_create e = False"

fun is_status_write :: "Effect \<Rightarrow> bool" where
  "is_status_write (VirtualRoutersUpdate ns obj) = True"
| "is_status_write e = False"

fun is_queue_call :: "Effect \<Rightarrow> bool" where
  "is_queue_call WorkqueueGet = True"
| "is_queue_call (WorkqueueAdd k) = True"
| "is_queue_call (WorkqueueAddRateLimited k) = True"
| "is_queue_call (WorkqueueForget obj) = True"
| "is_queue_call (WorkqueueDone obj) = True"
| "is_queue_call e = False"

subsection \<open>The ensure contract of the specification (section 4.4)\<close>

text \<open>
  Written after the specification's words, to compare the four ensure functions with:
  get; if NotFound, create; any other error is propagated; an object that exists is left
  alone. \<open>spec_ensure_in_order\<close> runs such steps in order and stops at the first failure.
\<close>

definition spec_ensure ::
  "Effect \<Rightarrow> Effect \<Rightarrow> error option \<Rightarrow> error option \<Rightarrow> error option \<times> Effect list" where
  "spec_ensure get create getAnswer createAnswer =
     (case getAnswer of
        None \<Rightarrow> (None, [get])
      | Some err \<Rightarrow>
          if IsNotFound err then (createAnswer, [get, create]) else (Some err, [get]))"

fun spec_ensure_in_order :: "(error option \<times> Effect list) list \<Rightarrow> error option \<times> Effect list" where
  "spec_ensure_in_order [] = (None, [])"
| "spec_ensure_in_order ((Some err, t) # rest) = (Some err, t)"
| "spec_ensure_in_order ((None, t) # rest) = after t (spec_ensure_in_order rest)"

text \<open>Step 5 of the specification's sync contract: the four objects, in this order.\<close>

definition spec_supporting_objects ::
  "Imports \<Rightarrow> Controller \<Rightarrow> VirtualRouter \<Rightarrow> (error option \<times> Effect list) list" where
  "spec_supporting_objects imp c vr =
     (let newNS = Name (vr_ObjectMeta vr) in
      [spec_ensure (NamespacesGet newNS) (NamespacesCreate (namespaceLiteral imp newNS vr))
         (Namespaces_Get c newNS) (Namespaces_Create c (namespaceLiteral imp newNS vr)),
       spec_ensure (ServiceAccountsGet newNS SERVICE_ACCOUNT_NAME)
         (ServiceAccountsCreate newNS (serviceAccountLiteral imp newNS vr))
         (ServiceAccounts_Get c newNS SERVICE_ACCOUNT_NAME)
         (ServiceAccounts_Create c newNS (serviceAccountLiteral imp newNS vr)),
       spec_ensure (RolesGet newNS ROLE_NAME) (RolesCreate newNS (roleLiteral imp newNS vr))
         (Roles_Get c newNS ROLE_NAME) (Roles_Create c newNS (roleLiteral imp newNS vr)),
       spec_ensure (RoleBindingsGet newNS ROLE_BINDING_NAME)
         (RoleBindingsCreate newNS (roleBindingLiteral imp newNS vr))
         (RoleBindings_Get c newNS ROLE_BINDING_NAME)
         (RoleBindings_Create c newNS (roleBindingLiteral imp newNS vr))])"

subsection \<open>Concrete clusters\<close>

text \<open>
  A small cluster to run the code on: at most one VirtualRouter in the lister, the private
  namespace present or absent, the service account, role and role binding all present or
  all absent, at most one Deployment in the lister.
  Creates and updates succeed and return the object they were given; reads of anything
  else answer NotFound.
\<close>

definition notFound :: error where
  "notFound = StatusError StatusReasonNotFound ''not found''"

definition fakeController ::
  "VirtualRouter option \<Rightarrow> bool \<Rightarrow> bool \<Rightarrow> Deployment option \<Rightarrow> any \<times> bool
     \<Rightarrow> Controller" where
  "fakeController router namespacePresent rbacPresent depl item =
     \<lparr>virtualRoutersLister =
        (\<lambda>ns n. case router of
                   None \<Rightarrow> Inl notFound
                 | Some v \<Rightarrow>
                     if ns = Namespace (vr_ObjectMeta v) \<and> n = Name (vr_ObjectMeta v)
                     then Inr v else Inl notFound),
      deploymentsLister =
        (\<lambda>ns n. case depl of
                   None \<Rightarrow> Inl notFound
                 | Some d \<Rightarrow>
                     if ns = Namespace (depl_ObjectMeta d) \<and> n = Name (depl_ObjectMeta d)
                     then Inr d else Inl notFound),
      Namespaces_Get = (\<lambda>n. if namespacePresent then None else Some notFound),
      Namespaces_Create = (\<lambda>obj. None),
      ServiceAccounts_Get = (\<lambda>ns n. if rbacPresent then None else Some notFound),
      ServiceAccounts_Create = (\<lambda>ns obj. None),
      Roles_Get = (\<lambda>ns n. if rbacPresent then None else Some notFound),
      Roles_Create = (\<lambda>ns obj. None),
      RoleBindings_Get = (\<lambda>ns n. if rbacPresent then None else Some notFound),
      RoleBindings_Create = (\<lambda>ns obj. None),
      Deployments_Create = (\<lambda>ns obj. Inr obj),
      Deployments_Update = (\<lambda>ns obj. Inr obj),
      VirtualRouters_Update = (\<lambda>ns obj. None),
      workqueue_Get = item,
      klog_v = 0\<rparr>"

definition imports0 :: Imports where
  "imports0 =
     \<lparr>SchemeGroupVersion = \<lparr>gv_Group = ''tmax.hypercloud.com'', gv_Version = ''v1''\<rparr>,
      GroupName = ''virtualrouter.tmax.hypercloud.com''\<rparr>"

text \<open>The intent of the specification's scenario A, with a variable replica count and a variable
  reported status.\<close>

definition router_r1 :: "int32 option \<Rightarrow> int32 \<Rightarrow> VirtualRouter" where
  "router_r1 replicas available =
     \<lparr>vr_ObjectMeta = ObjectMeta_zero
        \<lparr>Name := ''r1'', Namespace := ''default'', UID := ''uid-r1'', ResourceVersion := ''7''\<rparr>,
      vr_Spec = \<lparr>DeploymentName = ''d1'', Replicas = replicas, Image = ''img:v1'',
                 NodeSelector = [\<lparr>Key = ''zone'', Value = ''a''\<rparr>],
                 Affinity = corev1_Affinity None None None\<rparr>,
      vr_Status = \<lparr>AvailableReplicas = available\<rparr>\<rparr>"

text \<open>A Deployment \<open>d1\<close> in namespace \<open>r1\<close> that somebody else made: no owner reference.\<close>

definition foreign_d1 :: Deployment where
  "foreign_d1 =
     (newDeployment imports0 ''r1'' (router_r1 (Some 2) 0))
       \<lparr>depl_ObjectMeta := ObjectMeta_zero\<lparr>Name := ''d1'', Namespace := ''r1''\<rparr>\<rparr>"


text \<open>
  The Deployment the controller itself makes for \<open>r1\<close> with two replicas, as the cluster
  reports it once both replicas are available.
\<close>

definition owned_d1 :: Deployment where
  "owned_d1 =
     (newDeployment imports0 ''r1'' (router_r1 (Some 2) 0))
       \<lparr>depl_Status := \<lparr>depl_AvailableReplicas = 2\<rparr>\<rparr>"

subsection \<open>The store behind the Deployment calls\<close>

text \<open>
  The Deployments the controller is handed come from the API server: the lister reads a
  cache of what the server stores, Create and Update answer with the object as stored.
  The server passes every write of an apps/v1 Deployment through the defaulting of that
  type (\<open>SetDefaults_Deployment\<close>, which the API documents on the field: "Defaults to
  1"): a nil Spec.Replicas is stored as 1. Of the defaults it sets, this is the only one on
  a field of the model. The server is not part of the repository; this is its documented
  behaviour.
\<close>

definition SetDefaults_Deployment :: "Deployment \<Rightarrow> Deployment" where
  "SetDefaults_Deployment obj =
     (case depl_Replicas (depl_Spec obj) of
        None \<Rightarrow> obj\<lparr>depl_Spec := (depl_Spec obj)\<lparr>depl_Replicas := Some 1\<rparr>\<rparr>
      | Some n \<Rightarrow> obj)"




text \<open>
  The small cluster again, now with Create and Update answering as the server does, with
  the defaulted object.
\<close>

definition defaultingController ::
  "VirtualRouter option \<Rightarrow> bool \<Rightarrow> bool \<Rightarrow> Deployment option \<Rightarrow> any \<times> bool
     \<Rightarrow> Controller" where
  "defaultingController router namespacePresent rbacPresent depl item =
     (fakeController router namespacePresent rbacPresent depl item)
       \<lparr>Deployments_Create := (\<lambda>ns obj. Inr (SetDefaults_Deployment obj)),
        Deployments_Update := (\<lambda>ns obj. Inr (SetDefaults_Deployment obj))\<rparr>"

text \<open>
  The Deployment the controller makes for \<open>r1\<close> while the intent gives no replica count, as
  the server stores it.
\<close>

definition stored_d1 :: Deployment where
  "stored_d1 = SetDefaults_Deployment (newDeployment imports0 ''r1'' (router_r1 None 0))"

section \<open>Properties\<close>

subsection \<open>The desired-state projection\<close>

lemma nodeSelectorLoop_map_of:
  "nodeSelectorLoop xs m = m ++ map_of (rev (map (\<lambda>s. (Key s, Value s)) xs))"
proof (induction xs arbitrary: m)
  case Nil
  show ?case by simp
next
  case (Cons x xs)
  have "nodeSelectorLoop (x # xs) m = nodeSelectorLoop xs (m(Key x \<mapsto> Value x))"
    by simp
  also have "\<dots> = m(Key x \<mapsto> Value x) ++ map_of (rev (map (\<lambda>s. (Key s, Value s)) xs))"
    by (rule Cons.IH)
  also have "\<dots> = m ++ ([Key x \<mapsto> Value x] ++ map_of (rev (map (\<lambda>s. (Key s, Value s)) xs)))"
    by (rule ext) (simp add: map_add_def split: option.splits)
  also have "\<dots> = m ++ map_of (rev (map (\<lambda>s. (Key s, Value s)) (x # xs)))"
    by simp
  finally show ?case .
qed

lemma IsControlledBy_NewControllerRef:
  "OwnerReferences m = NewControllerRef owner gvk # rest \<Longrightarrow> IsControlledBy m owner"
  by (simp add: IsControlledBy_def GetControllerOf_def NewControllerRef_def)

lemma newDeployment_OwnerReferences:
  "OwnerReferences (depl_ObjectMeta (newDeployment imp newNS vr))
     = [NewControllerRef (vr_ObjectMeta vr) (WithKind (SchemeGroupVersion imp) ''VirtualRouter'')]"
  by (simp add: newDeployment_def Let_def ObjectMeta_zero_def)

lemma newDeployment_IsControlledBy:
  "IsControlledBy (depl_ObjectMeta (newDeployment imp newNS vr)) (vr_ObjectMeta vr)"
  by (rule IsControlledBy_NewControllerRef) (rule newDeployment_OwnerReferences)

lemma newDeployment_Replicas:
  "depl_Replicas (depl_Spec (newDeployment imp newNS vr)) = Replicas (vr_Spec vr)"
  by (simp add: newDeployment_def Let_def)

lemma newDeployment_pod_NodeSelector:
  "pod_NodeSelector (tmpl_Spec (depl_Template (depl_Spec (newDeployment imp newNS vr))))
     = map_of (rev (map (\<lambda>s. (Key s, Value s)) (NodeSelector (vr_Spec vr))))"
  by (simp add: newDeployment_def Let_def nodeSelectorLoop_map_of)

lemma newDeployment_pod_Containers:
  "pod_Containers (tmpl_Spec (depl_Template (depl_Spec (newDeployment imp newNS vr))))
     = [\<lparr>ctr_Name = Name (vr_ObjectMeta vr),
         ctr_Image = Image (vr_Spec vr),
         ctr_ImagePullPolicy = ''Always'',
         ctr_Env = [\<lparr>env_Name = ''POD_NAMESPACE'', env_Value = newNS\<rparr>],
         ctr_SecurityContext =
           Some \<lparr>sc_Capabilities = Some \<lparr>cap_Add = [''NET_RAW'', ''NET_ADMIN'', ''SYS_ADMIN'']\<rparr>,
                 sc_Privileged = Some True\<rparr>\<rparr>]"
  by (simp add: newDeployment_def Let_def)

lemma newDeployment_template_meta:
  "Labels (tmpl_ObjectMeta (depl_Template (depl_Spec (newDeployment imp newNS vr))))
     = [''app'' \<mapsto> ''virtualrouterInstance'']
   \<and> Annotations (tmpl_ObjectMeta (depl_Template (depl_Spec (newDeployment imp newNS vr))))
     = [''customresourceName'' \<mapsto> Name (vr_ObjectMeta vr),
        ''customresourceNamespace'' \<mapsto> Namespace (vr_ObjectMeta vr)]"
  by (simp add: newDeployment_def Let_def ObjectMeta_zero_def VIRTUALROUTER_LABEL_def)

lemma newDeployment_Selector:
  "depl_Selector (depl_Spec (newDeployment imp newNS vr))
     = Some \<lparr>sel_MatchLabels = [''app'' \<mapsto> ''virtualrouterInstance'']\<rparr>"
  by (simp add: newDeployment_def Let_def VIRTUALROUTER_LABEL_def)

lemma newDeployment_identity:
  "Name (depl_ObjectMeta (newDeployment imp newNS vr)) = DeploymentName (vr_Spec vr)
   \<and> Namespace (depl_ObjectMeta (newDeployment imp newNS vr)) = newNS
   \<and> pod_Affinity (tmpl_Spec (depl_Template (depl_Spec (newDeployment imp newNS vr))))
       = Some (Affinity (vr_Spec vr))"
  by (simp add: newDeployment_def Let_def ObjectMeta_zero_def)

text \<open>
  C7. newDeployment is a function of the namespace and the intent alone (with the imported
  group/version constant); it reads no collaborator and issues no effect. For every
  namespace and every VirtualRouter the Deployment it returns is named by the intent's
  deploymentName, lies in the given namespace, carries the intent's replicas pointer, the
  fixed \<open>app\<close> label (as selector and as pod label), the pod annotations with the
  intent's name and namespace, the node selector entries of the intent as a map (a later
  entry wins over an earlier one with the same key), the intent's affinity, exactly one
  container with the intent's image, the capabilities NET_RAW, NET_ADMIN and SYS_ADMIN,
  privileged mode and the environment entry POD_NAMESPACE set to the given namespace, and
  exactly one owner reference, a controlling one to the intent object.
\<close>

theorem newDeployment_projection:
  "Name (depl_ObjectMeta (newDeployment imp newNS vr)) = DeploymentName (vr_Spec vr)
   \<and> Namespace (depl_ObjectMeta (newDeployment imp newNS vr)) = newNS
   \<and> depl_Replicas (depl_Spec (newDeployment imp newNS vr)) = Replicas (vr_Spec vr)
   \<and> depl_Selector (depl_Spec (newDeployment imp newNS vr))
        = Some \<lparr>sel_MatchLabels = [''app'' \<mapsto> ''virtualrouterInstance'']\<rparr>
   \<and> Labels (tmpl_ObjectMeta (depl_Template (depl_Spec (newDeployment imp newNS vr))))
        = [''app'' \<mapsto> ''virtualrouterInstance'']
   \<and> Annotations (tmpl_ObjectMeta (depl_Template (depl_Spec (newDeployment imp newNS vr))))
        = [''customresourceName'' \<mapsto> Name (vr_ObjectMeta vr),
           ''customresourceNamespace'' \<mapsto> Namespace (vr_ObjectMeta vr)]
   \<and> pod_NodeSelector (tmpl_Spec (depl_Template (depl_Spec (newDeployment imp newNS vr))))
        = map_of (rev (map (\<lambda>s. (Key s, Value s)) (NodeSelector (vr_Spec vr))))
   \<and> pod_Affinity (tmpl_Spec (depl_Template (depl_Spec (newDeployment imp newNS vr))))
        = Some (Affinity (vr_Spec vr))
   \<and> pod_Containers (tmpl_Spec (depl_Template (depl_Spec (newDeployment imp newNS vr))))
        = [\<lparr>ctr_Name = Name (vr_ObjectMeta vr),
            ctr_Image = Image (vr_Spec vr),
            ctr_ImagePullPolicy = ''Always'',
            ctr_Env = [\<lparr>env_Name = ''POD_NAMESPACE'', env_Value = newNS\<rparr>],
            ctr_SecurityContext =
              Some \<lparr>sc_Capabilities =
                      Some \<lparr>cap_Add = [''NET_RAW'', ''NET_ADMIN'', ''SYS_ADMIN'']\<rparr>,
                    sc_Privileged = Some True\<rparr>\<rparr>]
   \<and> OwnerReferences (depl_ObjectMeta (newDeployment imp newNS vr))
        = [\<lparr>ref_APIVersion =
              GroupVersion_String (WithKind (SchemeGroupVersion imp) ''VirtualRouter''),
            ref_Kind = ''VirtualRouter'', ref_Name = Name (vr_ObjectMeta vr),
            ref_UID = UID (vr_ObjectMeta vr), ref_Controller = Some True,
            ref_BlockOwnerDeletion = Some True\<rparr>]
   \<and> IsControlledBy (depl_ObjectMeta (newDeployment imp newNS vr)) (vr_ObjectMeta vr)"
  using newDeployment_identity [of imp newNS vr] newDeployment_template_meta [of imp newNS vr]
  by (simp add: newDeployment_Replicas newDeployment_Selector newDeployment_pod_NodeSelector
        newDeployment_pod_Containers newDeployment_IsControlledBy
        newDeployment_OwnerReferences NewControllerRef_def WithKind_def)

theorem newDeployment_projection_witness:
  "Name (depl_ObjectMeta (newDeployment imports0 ''r1'' (router_r1 (Some 2) 0))) = ''d1''
   \<and> depl_Replicas (depl_Spec (newDeployment imports0 ''r1'' (router_r1 (Some 2) 0))) = Some 2
   \<and> pod_NodeSelector
        (tmpl_Spec (depl_Template (depl_Spec (newDeployment imports0 ''r1'' (router_r1 (Some 2) 0)))))
        ''zone'' = Some ''a''
   \<and> IsControlledBy (depl_ObjectMeta (newDeployment imports0 ''r1'' (router_r1 (Some 2) 0)))
        (vr_ObjectMeta (router_r1 (Some 2) 0))"
  using newDeployment_projection [of imports0 "''r1''" "router_r1 (Some 2) 0"]
  by (simp add: router_r1_def)


subsection \<open>How the parts of syncHandler compose\<close>

text \<open>
  The claims about a sync are proved from equations that say what each part of syncHandler
  is on each of its paths, and from what each part contributes to the classes of effects
  defined above. First the status write: on a store where the cached object is allocated,
  updateVirtualRouterStatus writes a changed copy and leaves every allocated cell alone.
\<close>

lemma updateVirtualRouterStatus_store:
  assumes "cells st p = Some v" and "p < next_free st"
  shows "updateVirtualRouterStatus c st p d =
           (Return (VirtualRouters_Update c (Namespace (vr_ObjectMeta v))
                      (v\<lparr>vr_Status := (vr_Status v)\<lparr>AvailableReplicas := depl_AvailableReplicas (depl_Status d)\<rparr>\<rparr>)),
            [VirtualRoutersUpdate (Namespace (vr_ObjectMeta v))
               (v\<lparr>vr_Status := (vr_Status v)\<lparr>AvailableReplicas := depl_AvailableReplicas (depl_Status d)\<rparr>\<rparr>)],
            st\<lparr>cells := (cells st)(next_free st \<mapsto>
                   v\<lparr>vr_Status := (vr_Status v)\<lparr>AvailableReplicas := depl_AvailableReplicas (depl_Status d)\<rparr>\<rparr>),
               next_free := Suc (next_free st)\<rparr>)"
  using assms by (simp add: updateVirtualRouterStatus_def DeepCopy_def alloc_def)

lemma syncHandler_status_eq:
  "syncHandler_status c v d =
     (case VirtualRouters_Update c (Namespace (vr_ObjectMeta v))
             (v\<lparr>vr_Status := (vr_Status v)\<lparr>AvailableReplicas := depl_AvailableReplicas (depl_Status d)\<rparr>\<rparr>) of
        Some err \<Rightarrow> (Return (Some err),
           [VirtualRoutersUpdate (Namespace (vr_ObjectMeta v))
             (v\<lparr>vr_Status := (vr_Status v)\<lparr>AvailableReplicas := depl_AvailableReplicas (depl_Status d)\<rparr>\<rparr>)])
      | None \<Rightarrow> (Return None,
           [VirtualRoutersUpdate (Namespace (vr_ObjectMeta v))
             (v\<lparr>vr_Status := (vr_Status v)\<lparr>AvailableReplicas := depl_AvailableReplicas (depl_Status d)\<rparr>\<rparr>),
            RecorderEvent v EventTypeNormal SuccessSynced (ArgStr MessageResourceSynced)]))"
  by (simp add: syncHandler_status_def updateVirtualRouterStatus_store [where v = v] cacheStore_def
           split: option.splits)

lemma pair_None: "fst r = None \<Longrightarrow> r = (None, snd r)"
  by (cases r) simp

lemma syncHandler_validated:
  assumes "SplitMetaNamespaceKey key = Inr (namespace, name)"
    and "virtualRoutersLister c namespace name = Inr vr"
    and "DeploymentName (vr_Spec vr) \<noteq> []"
  shows "syncHandler imp c key =
     (case ensureVirtualRouterNamespace imp c (Name (vr_ObjectMeta vr)) vr of
        (Some err, e1) \<Rightarrow>
          (Return (Some err),
           [KlogInfo [ArgStr key], VirtualRoutersListerGet namespace name] @ e1 @ [KlogError err])
      | (None, e1) \<Rightarrow>
     (case ensureVirtualRouterSA imp c (Name (vr_ObjectMeta vr)) vr of
        (Some err, e2) \<Rightarrow>
          (Return (Some err),
           [KlogInfo [ArgStr key], VirtualRoutersListerGet namespace name] @ e1 @ e2 @ [KlogError err])
      | (None, e2) \<Rightarrow>
     (case ensureVirtualRouterRole imp c (Name (vr_ObjectMeta vr)) vr of
        (Some err, e3) \<Rightarrow>
          (Return (Some err),
           [KlogInfo [ArgStr key], VirtualRoutersListerGet namespace name] @ e1 @ e2 @ e3 @ [KlogError err])
      | (None, e3) \<Rightarrow>
     (case ensureVirtualRouterRoleBinding imp c (Name (vr_ObjectMeta vr)) vr of
        (Some err, e4) \<Rightarrow>
          (Return (Some err),
           [KlogInfo [ArgStr key], VirtualRoutersListerGet namespace name] @ e1 @ e2 @ e3 @ e4 @ [KlogError err])
      | (None, e4) \<Rightarrow>
          after ([KlogInfo [ArgStr key], VirtualRoutersListerGet namespace name] @ e1 @ e2 @ e3 @ e4)
            (syncHandler_deployment imp c name vr (Name (vr_ObjectMeta vr))
               (DeploymentName (vr_Spec vr)))))))"
  using assms by (simp add: syncHandler_def Let_def)

lemma syncHandler_reaches_deployment:
  assumes "SplitMetaNamespaceKey key = Inr (namespace, name)"
    and "virtualRoutersLister c namespace name = Inr vr"
    and "DeploymentName (vr_Spec vr) \<noteq> []"
    and "fst (ensureVirtualRouterNamespace imp c (Name (vr_ObjectMeta vr)) vr) = None"
    and "fst (ensureVirtualRouterSA imp c (Name (vr_ObjectMeta vr)) vr) = None"
    and "fst (ensureVirtualRouterRole imp c (Name (vr_ObjectMeta vr)) vr) = None"
    and "fst (ensureVirtualRouterRoleBinding imp c (Name (vr_ObjectMeta vr)) vr) = None"
  shows "syncHandler imp c key =
     after ([KlogInfo [ArgStr key], VirtualRoutersListerGet namespace name]
            @ snd (ensureVirtualRouterNamespace imp c (Name (vr_ObjectMeta vr)) vr)
            @ snd (ensureVirtualRouterSA imp c (Name (vr_ObjectMeta vr)) vr)
            @ snd (ensureVirtualRouterRole imp c (Name (vr_ObjectMeta vr)) vr)
            @ snd (ensureVirtualRouterRoleBinding imp c (Name (vr_ObjectMeta vr)) vr))
       (syncHandler_deployment imp c name vr (Name (vr_ObjectMeta vr)) (DeploymentName (vr_Spec vr)))"
proof -
  note v = syncHandler_validated [OF assms(1-3), of imp]
  show ?thesis
    apply (subst v)
    apply (subst pair_None [OF assms(4)])
    apply (subst pair_None [OF assms(5)])
    apply (subst pair_None [OF assms(6)])
    apply (subst pair_None [OF assms(7)])
    apply (simp only: prod.case option.case)
    done
qed

lemma after_simps [simp]:
  "fst (after t r) = fst r" "snd (after t r) = t @ snd r"
  by (simp_all add: after_def)

lemma klog_V4_filters [simp]:
  "filter is_deployment_update (klog_V4_Infof c f args) = []"
  "filter is_deployment_create (klog_V4_Infof c f args) = []"
  "filter is_deployment_call (klog_V4_Infof c f args) = []"
  "filter is_managed_write (klog_V4_Infof c f args) = []"
  "filter is_status_write (klog_V4_Infof c f args) = []"
  "filter is_supporting_call (klog_V4_Infof c f args) = []"
  "filter is_write (klog_V4_Infof c f args) = []"
  "filter is_queue_call (klog_V4_Infof c f args) = []"
  by (simp_all add: klog_V4_Infof_def)

lemma syncHandler_deployment_found:
  "deploymentsLister c newNS dn = Inr d \<Longrightarrow>
   syncHandler_deployment imp c name vr newNS dn =
     after [DeploymentsListerGet newNS dn] (syncHandler_converge imp c name vr newNS d)"
  by (simp add: syncHandler_deployment_def Let_def)

lemma syncHandler_deployment_error:
  "deploymentsLister c newNS dn = Inl err \<Longrightarrow> \<not> IsNotFound err \<Longrightarrow>
   syncHandler_deployment imp c name vr newNS dn = (Return (Some err), [DeploymentsListerGet newNS dn])"
  by (simp add: syncHandler_deployment_def Let_def)

lemma syncHandler_deployment_absent:
  "deploymentsLister c newNS dn = Inl err \<Longrightarrow> IsNotFound err \<Longrightarrow>
   syncHandler_deployment imp c name vr newNS dn =
     (case Deployments_Create c newNS (newDeployment imp newNS vr) of
        Inl err' \<Rightarrow>
          (Return (Some err'),
           [DeploymentsListerGet newNS dn, KlogInfo [ArgStr ''NotFound Deploy start''],
            DeploymentsCreate newNS (newDeployment imp newNS vr)])
      | Inr d \<Rightarrow>
          after [DeploymentsListerGet newNS dn, KlogInfo [ArgStr ''NotFound Deploy start''],
                 DeploymentsCreate newNS (newDeployment imp newNS vr)]
            (syncHandler_converge imp c name vr newNS d))"
  by (simp add: syncHandler_deployment_def Let_def split: sum.splits)

lemma converge_foreign:
  "\<not> IsControlledBy (depl_ObjectMeta d) (vr_ObjectMeta vr) \<Longrightarrow>
   syncHandler_converge imp c name vr newNS d =
     (Return (Some (ErrorfText (Sprintf MessageResourceExists [ArgStr (Name (depl_ObjectMeta d))]))),
      [RecorderEvent vr EventTypeWarning ErrResourceExists
         (Sprintf MessageResourceExists [ArgStr (Name (depl_ObjectMeta d))])])"
  by (simp add: syncHandler_converge_def Let_def)

lemma converge_unmanaged_replicas:
  "IsControlledBy (depl_ObjectMeta d) (vr_ObjectMeta vr) \<Longrightarrow> Replicas (vr_Spec vr) = None \<Longrightarrow>
   syncHandler_converge imp c name vr newNS d = syncHandler_status c vr d"
  by (simp add: syncHandler_converge_def)

lemma converge_equal_replicas:
  "IsControlledBy (depl_ObjectMeta d) (vr_ObjectMeta vr) \<Longrightarrow> Replicas (vr_Spec vr) = Some n \<Longrightarrow>
   depl_Replicas (depl_Spec d) = Some n \<Longrightarrow>
   syncHandler_converge imp c name vr newNS d = syncHandler_status c vr d"
  by (simp add: syncHandler_converge_def)

lemma converge_nil_replicas:
  "IsControlledBy (depl_ObjectMeta d) (vr_ObjectMeta vr) \<Longrightarrow> Replicas (vr_Spec vr) = Some n \<Longrightarrow>
   depl_Replicas (depl_Spec d) = None \<Longrightarrow>
   syncHandler_converge imp c name vr newNS d = (Panic, [])"
  by (simp add: syncHandler_converge_def)

lemma converge_different_replicas:
  "IsControlledBy (depl_ObjectMeta d) (vr_ObjectMeta vr) \<Longrightarrow> Replicas (vr_Spec vr) = Some n \<Longrightarrow>
   depl_Replicas (depl_Spec d) = Some m \<Longrightarrow> n \<noteq> m \<Longrightarrow>
   syncHandler_converge imp c name vr newNS d =
     (case Deployments_Update c newNS (newDeployment imp newNS vr) of
        Inl err \<Rightarrow>
          (Return (Some err),
           klog_V4_Infof c ''VirtualRouter %s replicas: %d, deployment replicas: %d''
             [ArgStr name, ArgInt32 n, ArgInt32 m]
           @ [DeploymentsUpdate newNS (newDeployment imp newNS vr)])
      | Inr d' \<Rightarrow>
          after (klog_V4_Infof c ''VirtualRouter %s replicas: %d, deployment replicas: %d''
                   [ArgStr name, ArgInt32 n, ArgInt32 m]
                 @ [DeploymentsUpdate newNS (newDeployment imp newNS vr)])
            (syncHandler_status c vr d'))"
  by (simp add: syncHandler_converge_def Let_def)

lemma status_filters [simp]:
  "filter is_status_write (snd (syncHandler_status c v d)) =
     [VirtualRoutersUpdate (Namespace (vr_ObjectMeta v))
        (v\<lparr>vr_Status := (vr_Status v)\<lparr>AvailableReplicas := depl_AvailableReplicas (depl_Status d)\<rparr>\<rparr>)]"
  "filter is_write (snd (syncHandler_status c v d)) =
     [VirtualRoutersUpdate (Namespace (vr_ObjectMeta v))
        (v\<lparr>vr_Status := (vr_Status v)\<lparr>AvailableReplicas := depl_AvailableReplicas (depl_Status d)\<rparr>\<rparr>)]"
  "filter is_managed_write (snd (syncHandler_status c v d)) =
     [VirtualRoutersUpdate (Namespace (vr_ObjectMeta v))
        (v\<lparr>vr_Status := (vr_Status v)\<lparr>AvailableReplicas := depl_AvailableReplicas (depl_Status d)\<rparr>\<rparr>)]"
  "filter is_deployment_update (snd (syncHandler_status c v d)) = []"
  "filter is_deployment_create (snd (syncHandler_status c v d)) = []"
  "filter is_deployment_call (snd (syncHandler_status c v d)) = []"
  "filter is_supporting_call (snd (syncHandler_status c v d)) = []"
  "filter is_queue_call (snd (syncHandler_status c v d)) = []"
  by (simp_all add: syncHandler_status_eq split: option.splits)

lemma status_write_mem:
  "VirtualRoutersUpdate ns obj \<in> set (snd (syncHandler_status c v d)) \<longleftrightarrow>
     ns = Namespace (vr_ObjectMeta v)
     \<and> obj = v\<lparr>vr_Status := (vr_Status v)\<lparr>AvailableReplicas := depl_AvailableReplicas (depl_Status d)\<rparr>\<rparr>"
  by (auto simp add: syncHandler_status_eq split: option.splits)

lemma klog_V4_no_status [simp]: "VirtualRoutersUpdate ns obj \<notin> set (klog_V4_Infof c f args)"
  by (simp add: klog_V4_Infof_def)

lemma converge_status_write:
  assumes "VirtualRoutersUpdate ns obj \<in> set (snd (syncHandler_converge imp c name vr newNS d))"
  shows "\<exists>d'. obj = vr\<lparr>vr_Status := (vr_Status vr)\<lparr>AvailableReplicas := depl_AvailableReplicas (depl_Status d')\<rparr>\<rparr>
           \<and> ns = Namespace (vr_ObjectMeta vr)
           \<and> (if filter is_deployment_update (snd (syncHandler_converge imp c name vr newNS d)) \<noteq> []
               then Deployments_Update c newNS (newDeployment imp newNS vr) = Inr d'
               else d' = d)
           \<and> filter is_status_write (snd (syncHandler_converge imp c name vr newNS d))
               = [VirtualRoutersUpdate ns obj]"
proof (cases "IsControlledBy (depl_ObjectMeta d) (vr_ObjectMeta vr)")
  case False
  with assms show ?thesis by (simp add: converge_foreign)
next
  case owned: True
  show ?thesis
  proof (cases "Replicas (vr_Spec vr)")
    case None
    with owned assms show ?thesis
      by (simp add: converge_unmanaged_replicas status_write_mem)
  next
    case (Some n)
    show ?thesis
    proof (cases "depl_Replicas (depl_Spec d)")
      case None
      with owned Some assms show ?thesis by (simp add: converge_nil_replicas)
    next
      case (Some m)
      show ?thesis
      proof (cases "n = m")
        case True
        with owned \<open>Replicas (vr_Spec vr) = Some n\<close> Some assms show ?thesis
          by (simp add: converge_equal_replicas status_write_mem)
      next
        case False
        note eq = converge_different_replicas [OF owned \<open>Replicas (vr_Spec vr) = Some n\<close> Some False, of imp c name newNS]
        show ?thesis
        proof (cases "Deployments_Update c newNS (newDeployment imp newNS vr)")
          case (Inl err)
          with eq assms show ?thesis by simp
        next
          case (Inr d')
          with eq assms show ?thesis by (simp add: status_write_mem)
        qed
      qed
    qed
  qed
qed

lemma converge_filters [simp]:
  "filter is_queue_call (snd (syncHandler_converge imp c name vr newNS d)) = []"
  "filter is_supporting_call (snd (syncHandler_converge imp c name vr newNS d)) = []"
  "filter is_deployment_create (snd (syncHandler_converge imp c name vr newNS d)) = []"
  by (simp_all add: syncHandler_converge_def Let_def split: option.splits sum.splits)

lemma deployment_filters [simp]:
  "filter is_queue_call (snd (syncHandler_deployment imp c name vr newNS dn)) = []"
  "filter is_supporting_call (snd (syncHandler_deployment imp c name vr newNS dn)) = []"
  by (simp_all add: syncHandler_deployment_def Let_def split: option.splits sum.splits)

lemma ensure_filters [simp]:
  "filter is_queue_call (snd (ensureVirtualRouterNamespace imp c newNS vr)) = []"
  "filter is_queue_call (snd (ensureVirtualRouterSA imp c newNS vr)) = []"
  "filter is_queue_call (snd (ensureVirtualRouterRole imp c newNS vr)) = []"
  "filter is_queue_call (snd (ensureVirtualRouterRoleBinding imp c newNS vr)) = []"
  "filter is_managed_write (snd (ensureVirtualRouterNamespace imp c newNS vr)) = []"
  "filter is_managed_write (snd (ensureVirtualRouterSA imp c newNS vr)) = []"
  "filter is_managed_write (snd (ensureVirtualRouterRole imp c newNS vr)) = []"
  "filter is_managed_write (snd (ensureVirtualRouterRoleBinding imp c newNS vr)) = []"
  "filter is_deployment_call (snd (ensureVirtualRouterNamespace imp c newNS vr)) = []"
  "filter is_deployment_call (snd (ensureVirtualRouterSA imp c newNS vr)) = []"
  "filter is_deployment_call (snd (ensureVirtualRouterRole imp c newNS vr)) = []"
  "filter is_deployment_call (snd (ensureVirtualRouterRoleBinding imp c newNS vr)) = []"
  "filter is_deployment_update (snd (ensureVirtualRouterNamespace imp c newNS vr)) = []"
  "filter is_deployment_update (snd (ensureVirtualRouterSA imp c newNS vr)) = []"
  "filter is_deployment_update (snd (ensureVirtualRouterRole imp c newNS vr)) = []"
  "filter is_deployment_update (snd (ensureVirtualRouterRoleBinding imp c newNS vr)) = []"
  "filter is_deployment_create (snd (ensureVirtualRouterNamespace imp c newNS vr)) = []"
  "filter is_deployment_create (snd (ensureVirtualRouterSA imp c newNS vr)) = []"
  "filter is_deployment_create (snd (ensureVirtualRouterRole imp c newNS vr)) = []"
  "filter is_deployment_create (snd (ensureVirtualRouterRoleBinding imp c newNS vr)) = []"
  "filter is_status_write (snd (ensureVirtualRouterNamespace imp c newNS vr)) = []"
  "filter is_status_write (snd (ensureVirtualRouterSA imp c newNS vr)) = []"
  "filter is_status_write (snd (ensureVirtualRouterRole imp c newNS vr)) = []"
  "filter is_status_write (snd (ensureVirtualRouterRoleBinding imp c newNS vr)) = []"
  by (simp_all add: ensureVirtualRouterNamespace_def ensureVirtualRouterSA_def
        ensureVirtualRouterRole_def ensureVirtualRouterRoleBinding_def split: option.splits)

lemma ensure_refines_spec:
  "ensureVirtualRouterNamespace imp c newNS vr =
     (fst (spec_ensure (NamespacesGet newNS) (NamespacesCreate (namespaceLiteral imp newNS vr))
             (Namespaces_Get c newNS) (Namespaces_Create c (namespaceLiteral imp newNS vr))),
      snd (ensureVirtualRouterNamespace imp c newNS vr))"
  "filter is_supporting_call (snd (ensureVirtualRouterNamespace imp c newNS vr)) =
     snd (spec_ensure (NamespacesGet newNS) (NamespacesCreate (namespaceLiteral imp newNS vr))
            (Namespaces_Get c newNS) (Namespaces_Create c (namespaceLiteral imp newNS vr)))"
  "ensureVirtualRouterSA imp c newNS vr =
     (fst (spec_ensure (ServiceAccountsGet newNS SERVICE_ACCOUNT_NAME)
             (ServiceAccountsCreate newNS (serviceAccountLiteral imp newNS vr))
             (ServiceAccounts_Get c newNS SERVICE_ACCOUNT_NAME)
             (ServiceAccounts_Create c newNS (serviceAccountLiteral imp newNS vr))),
      snd (ensureVirtualRouterSA imp c newNS vr))"
  "filter is_supporting_call (snd (ensureVirtualRouterSA imp c newNS vr)) =
     snd (spec_ensure (ServiceAccountsGet newNS SERVICE_ACCOUNT_NAME)
             (ServiceAccountsCreate newNS (serviceAccountLiteral imp newNS vr))
             (ServiceAccounts_Get c newNS SERVICE_ACCOUNT_NAME)
             (ServiceAccounts_Create c newNS (serviceAccountLiteral imp newNS vr)))"
  "ensureVirtualRouterRole imp c newNS vr =
     (fst (spec_ensure (RolesGet newNS ROLE_NAME) (RolesCreate newNS (roleLiteral imp newNS vr))
             (Roles_Get c newNS ROLE_NAME) (Roles_Create c newNS (roleLiteral imp newNS vr))),
      snd (ensureVirtualRouterRole imp c newNS vr))"
  "filter is_supporting_call (snd (ensureVirtualRouterRole imp c newNS vr)) =
     snd (spec_ensure (RolesGet newNS ROLE_NAME) (RolesCreate newNS (roleLiteral imp newNS vr))
             (Roles_Get c newNS ROLE_NAME) (Roles_Create c newNS (roleLiteral imp newNS vr)))"
  "ensureVirtualRouterRoleBinding imp c newNS vr =
     (fst (spec_ensure (RoleBindingsGet newNS ROLE_BINDING_NAME)
             (RoleBindingsCreate newNS (roleBindingLiteral imp newNS vr))
             (RoleBindings_Get c newNS ROLE_BINDING_NAME)
             (RoleBindings_Create c newNS (roleBindingLiteral imp newNS vr))),
      snd (ensureVirtualRouterRoleBinding imp c newNS vr))"
  "filter is_supporting_call (snd (ensureVirtualRouterRoleBinding imp c newNS vr)) =
     snd (spec_ensure (RoleBindingsGet newNS ROLE_BINDING_NAME)
             (RoleBindingsCreate newNS (roleBindingLiteral imp newNS vr))
             (RoleBindings_Get c newNS ROLE_BINDING_NAME)
             (RoleBindings_Create c newNS (roleBindingLiteral imp newNS vr)))"
  by (simp_all add: ensureVirtualRouterNamespace_def ensureVirtualRouterSA_def
        ensureVirtualRouterRole_def ensureVirtualRouterRoleBinding_def spec_ensure_def
        split: option.splits)

lemma spec_ensure_in_order_4:
  "spec_ensure_in_order [s1, s2, s3, s4] =
     (case fst s1 of Some e \<Rightarrow> (Some e, snd s1) | None \<Rightarrow>
      (case fst s2 of Some e \<Rightarrow> (Some e, snd s1 @ snd s2) | None \<Rightarrow>
      (case fst s3 of Some e \<Rightarrow> (Some e, snd s1 @ snd s2 @ snd s3) | None \<Rightarrow>
      (case fst s4 of Some e \<Rightarrow> (Some e, snd s1 @ snd s2 @ snd s3 @ snd s4)
                    | None \<Rightarrow> (None, snd s1 @ snd s2 @ snd s3 @ snd s4)))))"
  by (cases s1; cases s2; cases s3; cases s4) (simp add: after_def split: option.splits)

lemma literal_owner:
  "OwnerReferences (nso_ObjectMeta (namespaceLiteral imp newNS vr)) = [ownerReferenceTo imp vr]"
  "OwnerReferences (sa_ObjectMeta (serviceAccountLiteral imp newNS vr)) = [ownerReferenceTo imp vr]"
  "OwnerReferences (role_ObjectMeta (roleLiteral imp newNS vr)) = [ownerReferenceTo imp vr]"
  "OwnerReferences (rb_ObjectMeta (roleBindingLiteral imp newNS vr)) = [ownerReferenceTo imp vr]"
  by (simp_all add: namespaceLiteral_def serviceAccountLiteral_def roleLiteral_def
        roleBindingLiteral_def ObjectMeta_zero_def)

lemma literal_controlled:
  "IsControlledBy (nso_ObjectMeta (namespaceLiteral imp newNS vr)) (vr_ObjectMeta vr)"
  "IsControlledBy (sa_ObjectMeta (serviceAccountLiteral imp newNS vr)) (vr_ObjectMeta vr)"
  "IsControlledBy (role_ObjectMeta (roleLiteral imp newNS vr)) (vr_ObjectMeta vr)"
  "IsControlledBy (rb_ObjectMeta (roleBindingLiteral imp newNS vr)) (vr_ObjectMeta vr)"
  by (rule IsControlledBy_NewControllerRef, simp add: literal_owner ownerReferenceTo_def)+

lemma sync_supporting_calls:
  assumes "SplitMetaNamespaceKey key = Inr (namespace, name)"
    and "virtualRoutersLister c namespace name = Inr vr"
    and "DeploymentName (vr_Spec vr) \<noteq> []"
  shows "filter is_supporting_call (snd (syncHandler imp c key)) =
           snd (spec_ensure_in_order
             [(fst (ensureVirtualRouterNamespace imp c (Name (vr_ObjectMeta vr)) vr),
               filter is_supporting_call (snd (ensureVirtualRouterNamespace imp c (Name (vr_ObjectMeta vr)) vr))),
              (fst (ensureVirtualRouterSA imp c (Name (vr_ObjectMeta vr)) vr),
               filter is_supporting_call (snd (ensureVirtualRouterSA imp c (Name (vr_ObjectMeta vr)) vr))),
              (fst (ensureVirtualRouterRole imp c (Name (vr_ObjectMeta vr)) vr),
               filter is_supporting_call (snd (ensureVirtualRouterRole imp c (Name (vr_ObjectMeta vr)) vr))),
              (fst (ensureVirtualRouterRoleBinding imp c (Name (vr_ObjectMeta vr)) vr),
               filter is_supporting_call (snd (ensureVirtualRouterRoleBinding imp c (Name (vr_ObjectMeta vr)) vr)))])"
  unfolding syncHandler_validated [OF assms] spec_ensure_in_order_4
  by (simp add: case_prod_beta split: option.splits)

lemma sync_ensure_failure:
  assumes "SplitMetaNamespaceKey key = Inr (namespace, name)"
    and "virtualRoutersLister c namespace name = Inr vr"
    and "DeploymentName (vr_Spec vr) \<noteq> []"
    and "fst (spec_ensure_in_order
             [ensureVirtualRouterNamespace imp c (Name (vr_ObjectMeta vr)) vr,
              ensureVirtualRouterSA imp c (Name (vr_ObjectMeta vr)) vr,
              ensureVirtualRouterRole imp c (Name (vr_ObjectMeta vr)) vr,
              ensureVirtualRouterRoleBinding imp c (Name (vr_ObjectMeta vr)) vr]) = Some err"
  shows "fst (syncHandler imp c key) = Return (Some err)
         \<and> filter is_deployment_call (snd (syncHandler imp c key)) = []
         \<and> filter is_managed_write (snd (syncHandler imp c key)) = []"
  using assms(4) unfolding syncHandler_validated [OF assms(1-3)] spec_ensure_in_order_4
  by (simp add: case_prod_beta split: option.splits)

lemma sync_ensure_success:
  assumes "SplitMetaNamespaceKey key = Inr (namespace, name)"
    and "virtualRoutersLister c namespace name = Inr vr"
    and "DeploymentName (vr_Spec vr) \<noteq> []"
    and "fst (spec_ensure_in_order
             [ensureVirtualRouterNamespace imp c (Name (vr_ObjectMeta vr)) vr,
              ensureVirtualRouterSA imp c (Name (vr_ObjectMeta vr)) vr,
              ensureVirtualRouterRole imp c (Name (vr_ObjectMeta vr)) vr,
              ensureVirtualRouterRoleBinding imp c (Name (vr_ObjectMeta vr)) vr]) = None"
  shows "filter is_deployment_call (snd (syncHandler imp c key)) =
           filter is_deployment_call
             (snd (syncHandler_deployment imp c name vr (Name (vr_ObjectMeta vr)) (DeploymentName (vr_Spec vr))))"
  using assms(4) unfolding syncHandler_validated [OF assms(1-3)] spec_ensure_in_order_4
  by (simp add: case_prod_beta split: option.splits)


subsection \<open>Supporting objects\<close>

lemma ensure_fst_spec:
  "fst (ensureVirtualRouterNamespace imp c newNS vr) =
     fst (spec_ensure (NamespacesGet newNS) (NamespacesCreate (namespaceLiteral imp newNS vr))
             (Namespaces_Get c newNS) (Namespaces_Create c (namespaceLiteral imp newNS vr)))"
  "fst (ensureVirtualRouterSA imp c newNS vr) =
     fst (spec_ensure (ServiceAccountsGet newNS SERVICE_ACCOUNT_NAME)
             (ServiceAccountsCreate newNS (serviceAccountLiteral imp newNS vr))
             (ServiceAccounts_Get c newNS SERVICE_ACCOUNT_NAME)
             (ServiceAccounts_Create c newNS (serviceAccountLiteral imp newNS vr)))"
  "fst (ensureVirtualRouterRole imp c newNS vr) =
     fst (spec_ensure (RolesGet newNS ROLE_NAME) (RolesCreate newNS (roleLiteral imp newNS vr))
             (Roles_Get c newNS ROLE_NAME) (Roles_Create c newNS (roleLiteral imp newNS vr)))"
  "fst (ensureVirtualRouterRoleBinding imp c newNS vr) =
     fst (spec_ensure (RoleBindingsGet newNS ROLE_BINDING_NAME)
             (RoleBindingsCreate newNS (roleBindingLiteral imp newNS vr))
             (RoleBindings_Get c newNS ROLE_BINDING_NAME)
             (RoleBindings_Create c newNS (roleBindingLiteral imp newNS vr)))"
  by (simp_all add: ensureVirtualRouterNamespace_def ensureVirtualRouterSA_def
        ensureVirtualRouterRole_def ensureVirtualRouterRoleBinding_def spec_ensure_def
        split: option.splits)

lemma spec_supporting_objects_eq:
  "spec_supporting_objects imp c vr =
     [(fst (ensureVirtualRouterNamespace imp c (Name (vr_ObjectMeta vr)) vr),
       filter is_supporting_call (snd (ensureVirtualRouterNamespace imp c (Name (vr_ObjectMeta vr)) vr))),
      (fst (ensureVirtualRouterSA imp c (Name (vr_ObjectMeta vr)) vr),
       filter is_supporting_call (snd (ensureVirtualRouterSA imp c (Name (vr_ObjectMeta vr)) vr))),
      (fst (ensureVirtualRouterRole imp c (Name (vr_ObjectMeta vr)) vr),
       filter is_supporting_call (snd (ensureVirtualRouterRole imp c (Name (vr_ObjectMeta vr)) vr))),
      (fst (ensureVirtualRouterRoleBinding imp c (Name (vr_ObjectMeta vr)) vr),
       filter is_supporting_call (snd (ensureVirtualRouterRoleBinding imp c (Name (vr_ObjectMeta vr)) vr)))]"
  unfolding spec_supporting_objects_def Let_def ensure_fst_spec ensure_refines_spec(2,4,6,8)
  by simp

lemma spec_supporting_objects_fst:
  "fst (spec_ensure_in_order (spec_supporting_objects imp c vr)) =
   fst (spec_ensure_in_order
             [ensureVirtualRouterNamespace imp c (Name (vr_ObjectMeta vr)) vr,
              ensureVirtualRouterSA imp c (Name (vr_ObjectMeta vr)) vr,
              ensureVirtualRouterRole imp c (Name (vr_ObjectMeta vr)) vr,
              ensureVirtualRouterRoleBinding imp c (Name (vr_ObjectMeta vr)) vr])"
  unfolding spec_supporting_objects_eq spec_ensure_in_order_4
  by (simp split: option.splits)

lemma deployment_lookup_issued:
  "DeploymentsListerGet newNS dn \<in> set (filter is_deployment_call (snd (syncHandler_deployment imp c name vr newNS dn)))"
  by (simp add: syncHandler_deployment_def Let_def split: sum.splits)

lemma ownerReferenceTo_fields:
  "ownerReferenceTo imp vr =
     \<lparr>ref_APIVersion = GroupVersion_String (WithKind (SchemeGroupVersion imp) ''VirtualRouter''),
      ref_Kind = ''VirtualRouter'', ref_Name = Name (vr_ObjectMeta vr),
      ref_UID = UID (vr_ObjectMeta vr), ref_Controller = Some True,
      ref_BlockOwnerDeletion = Some True\<rparr>"
  by (simp add: ownerReferenceTo_def NewControllerRef_def WithKind_def)

lemma literal_identity:
  "Name (nso_ObjectMeta (namespaceLiteral imp newNS vr)) = newNS"
  "Name (sa_ObjectMeta (serviceAccountLiteral imp newNS vr)) = ''virtualrouter-sa''"
  "Namespace (sa_ObjectMeta (serviceAccountLiteral imp newNS vr)) = newNS"
  "Name (role_ObjectMeta (roleLiteral imp newNS vr)) = ''virtualrouter-role''"
  "Namespace (role_ObjectMeta (roleLiteral imp newNS vr)) = newNS"
  "Name (rb_ObjectMeta (roleBindingLiteral imp newNS vr)) = ''virtualrouter-rb''"
  "Namespace (rb_ObjectMeta (roleBindingLiteral imp newNS vr)) = newNS"
  by (simp_all add: namespaceLiteral_def serviceAccountLiteral_def roleLiteral_def
        roleBindingLiteral_def ObjectMeta_zero_def SERVICE_ACCOUNT_NAME_def ROLE_NAME_def
        ROLE_BINDING_NAME_def)

lemma literal_content:
  "role_Rules (roleLiteral imp newNS vr) =
     [\<lparr>rule_APIGroups = [GroupName imp],
       rule_Resources = [''natrules'', ''firewallrules'', ''loadbalancerrules''],
       rule_Verbs = [''get'', ''list'', ''watch'', ''create'', ''update'', ''patch'', ''delete'']\<rparr>,
      \<lparr>rule_APIGroups = [''network.tmaxanc.com''],
       rule_Resources = [''vpns''],
       rule_Verbs = [''get'', ''list'', ''watch'']\<rparr>]"
  "rb_RoleRef (roleBindingLiteral imp newNS vr) =
     \<lparr>rr_APIGroup = ''rbac.authorization.k8s.io'', rr_Kind = ''Role'',
      rr_Name = ''virtualrouter-role''\<rparr>"
  "rb_Subjects (roleBindingLiteral imp newNS vr) =
     [\<lparr>subj_Kind = ''ServiceAccount'', subj_Name = ''virtualrouter-sa''\<rparr>]"
  by (simp_all add: roleLiteral_def roleBindingLiteral_def networkGroupName_def rbac_v1_Group_def
        SERVICE_ACCOUNT_NAME_def ROLE_NAME_def)

text \<open>
  C5. For every sync that passes validation (the key parses, the intent is in the lister and
  names a Deployment), the private namespace is the VirtualRouter's own name and the calls
  on supporting objects are exactly those of the specification's ensure contract, run for
  namespace, service account, role and role binding in this order and stopped at the first
  failure: a get; on NotFound a create; nothing after a get that finds the object (the code
  has no update call for these kinds). Each step gets the object it would create: the
  namespace named after the VirtualRouter, and in that namespace the service account
  \<open>virtualrouter-sa\<close>, the role \<open>virtualrouter-role\<close> and the role binding
  \<open>virtualrouter-rb\<close>. Each created object has exactly that name and namespace and
  exactly one owner reference, the controlling one to the VirtualRouter (its kind, name and
  UID); the role carries the two fixed rules and the binding ties the role to the service
  account. If a step fails with an error other than NotFound on the get, or with any error
  on the create, sync returns that error and has touched neither the Deployment nor the
  intent object; otherwise it goes on to look the Deployment up in the private namespace.
\<close>

theorem supporting_objects_ensured_in_order:
  assumes "SplitMetaNamespaceKey key = Inr (namespace, name)"
    and "virtualRoutersLister c namespace name = Inr vr"
    and "DeploymentName (vr_Spec vr) \<noteq> []"
  shows "filter is_supporting_call (snd (syncHandler imp c key))
           = snd (spec_ensure_in_order (spec_supporting_objects imp c vr))
       \<and> (case fst (spec_ensure_in_order (spec_supporting_objects imp c vr)) of
            Some err \<Rightarrow>
              fst (syncHandler imp c key) = Return (Some err)
              \<and> filter is_deployment_call (snd (syncHandler imp c key)) = []
              \<and> filter is_managed_write (snd (syncHandler imp c key)) = []
          | None \<Rightarrow>
              DeploymentsListerGet (Name (vr_ObjectMeta vr)) (DeploymentName (vr_Spec vr))
                \<in> set (snd (syncHandler imp c key)))
       \<and> IsControlledBy (nso_ObjectMeta (namespaceLiteral imp (Name (vr_ObjectMeta vr)) vr))
            (vr_ObjectMeta vr)
       \<and> IsControlledBy (sa_ObjectMeta (serviceAccountLiteral imp (Name (vr_ObjectMeta vr)) vr))
            (vr_ObjectMeta vr)
       \<and> IsControlledBy (role_ObjectMeta (roleLiteral imp (Name (vr_ObjectMeta vr)) vr))
            (vr_ObjectMeta vr)
       \<and> IsControlledBy (rb_ObjectMeta (roleBindingLiteral imp (Name (vr_ObjectMeta vr)) vr))
            (vr_ObjectMeta vr)
       \<and> map (\<lambda>step. hd (snd step)) (spec_supporting_objects imp c vr)
           = [NamespacesGet (Name (vr_ObjectMeta vr)),
              ServiceAccountsGet (Name (vr_ObjectMeta vr)) ''virtualrouter-sa'',
              RolesGet (Name (vr_ObjectMeta vr)) ''virtualrouter-role'',
              RoleBindingsGet (Name (vr_ObjectMeta vr)) ''virtualrouter-rb'']
       \<and> Name (nso_ObjectMeta (namespaceLiteral imp (Name (vr_ObjectMeta vr)) vr))
           = Name (vr_ObjectMeta vr)
       \<and> Name (sa_ObjectMeta (serviceAccountLiteral imp (Name (vr_ObjectMeta vr)) vr))
           = ''virtualrouter-sa''
       \<and> Namespace (sa_ObjectMeta (serviceAccountLiteral imp (Name (vr_ObjectMeta vr)) vr))
           = Name (vr_ObjectMeta vr)
       \<and> Name (role_ObjectMeta (roleLiteral imp (Name (vr_ObjectMeta vr)) vr))
           = ''virtualrouter-role''
       \<and> Namespace (role_ObjectMeta (roleLiteral imp (Name (vr_ObjectMeta vr)) vr))
           = Name (vr_ObjectMeta vr)
       \<and> Name (rb_ObjectMeta (roleBindingLiteral imp (Name (vr_ObjectMeta vr)) vr))
           = ''virtualrouter-rb''
       \<and> Namespace (rb_ObjectMeta (roleBindingLiteral imp (Name (vr_ObjectMeta vr)) vr))
           = Name (vr_ObjectMeta vr)
       \<and> OwnerReferences (nso_ObjectMeta (namespaceLiteral imp (Name (vr_ObjectMeta vr)) vr))
           = [\<lparr>ref_APIVersion =
                 GroupVersion_String (WithKind (SchemeGroupVersion imp) ''VirtualRouter''),
               ref_Kind = ''VirtualRouter'', ref_Name = Name (vr_ObjectMeta vr),
               ref_UID = UID (vr_ObjectMeta vr), ref_Controller = Some True,
               ref_BlockOwnerDeletion = Some True\<rparr>]
       \<and> OwnerReferences (sa_ObjectMeta (serviceAccountLiteral imp (Name (vr_ObjectMeta vr)) vr))
           = OwnerReferences (nso_ObjectMeta (namespaceLiteral imp (Name (vr_ObjectMeta vr)) vr))
       \<and> OwnerReferences (role_ObjectMeta (roleLiteral imp (Name (vr_ObjectMeta vr)) vr))
           = OwnerReferences (nso_ObjectMeta (namespaceLiteral imp (Name (vr_ObjectMeta vr)) vr))
       \<and> OwnerReferences (rb_ObjectMeta (roleBindingLiteral imp (Name (vr_ObjectMeta vr)) vr))
           = OwnerReferences (nso_ObjectMeta (namespaceLiteral imp (Name (vr_ObjectMeta vr)) vr))
       \<and> role_Rules (roleLiteral imp (Name (vr_ObjectMeta vr)) vr)
           = [\<lparr>rule_APIGroups = [GroupName imp],
               rule_Resources = [''natrules'', ''firewallrules'', ''loadbalancerrules''],
               rule_Verbs = [''get'', ''list'', ''watch'', ''create'', ''update'', ''patch'',
                             ''delete'']\<rparr>,
              \<lparr>rule_APIGroups = [''network.tmaxanc.com''],
               rule_Resources = [''vpns''],
               rule_Verbs = [''get'', ''list'', ''watch'']\<rparr>]
       \<and> rb_RoleRef (roleBindingLiteral imp (Name (vr_ObjectMeta vr)) vr)
           = \<lparr>rr_APIGroup = ''rbac.authorization.k8s.io'', rr_Kind = ''Role'',
              rr_Name = ''virtualrouter-role''\<rparr>
       \<and> rb_Subjects (roleBindingLiteral imp (Name (vr_ObjectMeta vr)) vr)
           = [\<lparr>subj_Kind = ''ServiceAccount'', subj_Name = ''virtualrouter-sa''\<rparr>]"
proof -
  have calls: "filter is_supporting_call (snd (syncHandler imp c key))
           = snd (spec_ensure_in_order (spec_supporting_objects imp c vr))"
    unfolding spec_supporting_objects_eq by (rule sync_supporting_calls [OF assms])
  have outcome: "(case fst (spec_ensure_in_order (spec_supporting_objects imp c vr)) of
            Some err \<Rightarrow>
              fst (syncHandler imp c key) = Return (Some err)
              \<and> filter is_deployment_call (snd (syncHandler imp c key)) = []
              \<and> filter is_managed_write (snd (syncHandler imp c key)) = []
          | None \<Rightarrow>
              DeploymentsListerGet (Name (vr_ObjectMeta vr)) (DeploymentName (vr_Spec vr))
                \<in> set (snd (syncHandler imp c key)))"
  proof (cases "fst (spec_ensure_in_order (spec_supporting_objects imp c vr))")
    case None
    then have n: "fst (spec_ensure_in_order
             [ensureVirtualRouterNamespace imp c (Name (vr_ObjectMeta vr)) vr,
              ensureVirtualRouterSA imp c (Name (vr_ObjectMeta vr)) vr,
              ensureVirtualRouterRole imp c (Name (vr_ObjectMeta vr)) vr,
              ensureVirtualRouterRoleBinding imp c (Name (vr_ObjectMeta vr)) vr]) = None"
      by (simp add: spec_supporting_objects_fst)
    have "DeploymentsListerGet (Name (vr_ObjectMeta vr)) (DeploymentName (vr_Spec vr))
            \<in> set (filter is_deployment_call (snd (syncHandler imp c key)))"
      unfolding sync_ensure_success [OF assms n] by (rule deployment_lookup_issued)
    with None show ?thesis by simp
  next
    case (Some err)
    then have "fst (spec_ensure_in_order
             [ensureVirtualRouterNamespace imp c (Name (vr_ObjectMeta vr)) vr,
              ensureVirtualRouterSA imp c (Name (vr_ObjectMeta vr)) vr,
              ensureVirtualRouterRole imp c (Name (vr_ObjectMeta vr)) vr,
              ensureVirtualRouterRoleBinding imp c (Name (vr_ObjectMeta vr)) vr]) = Some err"
      by (simp add: spec_supporting_objects_fst)
    from sync_ensure_failure [OF assms this] Some show ?thesis by simp
  qed
  have gets: "map (\<lambda>step. hd (snd step)) (spec_supporting_objects imp c vr)
           = [NamespacesGet (Name (vr_ObjectMeta vr)),
              ServiceAccountsGet (Name (vr_ObjectMeta vr)) ''virtualrouter-sa'',
              RolesGet (Name (vr_ObjectMeta vr)) ''virtualrouter-role'',
              RoleBindingsGet (Name (vr_ObjectMeta vr)) ''virtualrouter-rb'']"
    by (simp add: spec_supporting_objects_def Let_def spec_ensure_def SERVICE_ACCOUNT_NAME_def
          ROLE_NAME_def ROLE_BINDING_NAME_def split: option.splits)
  from calls outcome gets show ?thesis
    by (simp add: literal_controlled literal_identity literal_owner literal_content
          ownerReferenceTo_fields)
qed

text \<open>Facts for running the code on the concrete cluster.\<close>

lemma key_default_r1: "SplitMetaNamespaceKey ''default/r1'' = Inr (''default'', ''r1'')"
  by (simp add: SplitMetaNamespaceKey_def)

lemma router_r1_meta [simp]:
  "Name (vr_ObjectMeta (router_r1 r a)) = ''r1''"
  "Namespace (vr_ObjectMeta (router_r1 r a)) = ''default''"
  "UID (vr_ObjectMeta (router_r1 r a)) = ''uid-r1''"
  "DeploymentName (vr_Spec (router_r1 r a)) = ''d1''"
  "Replicas (vr_Spec (router_r1 r a)) = r"
  by (simp_all add: router_r1_def ObjectMeta_zero_def)

lemma fakeController_router [simp]:
  "virtualRoutersLister (fakeController (Some (router_r1 r a)) s s' d q) ''default'' ''r1'' = Inr (router_r1 r a)"
  by (simp add: fakeController_def)

lemma fakeController_fields [simp]:
  "Namespaces_Get (fakeController v s s' d q) n = (if s then None else Some notFound)"
  "ServiceAccounts_Get (fakeController v s s' d q) ns n = (if s' then None else Some notFound)"
  "Roles_Get (fakeController v s s' d q) ns n = (if s' then None else Some notFound)"
  "RoleBindings_Get (fakeController v s s' d q) ns n = (if s' then None else Some notFound)"
  "Namespaces_Create (fakeController v s s' d q) nsobj = None"
  "ServiceAccounts_Create (fakeController v s s' d q) ns saobj = None"
  "Roles_Create (fakeController v s s' d q) ns roleobj = None"
  "RoleBindings_Create (fakeController v s s' d q) ns rbobj = None"
  "Deployments_Create (fakeController v s s' d q) ns dobj = Inr dobj"
  "Deployments_Update (fakeController v s s' d q) ns dobj = Inr dobj"
  "VirtualRouters_Update (fakeController v s s' d q) ns vobj = None"
  "workqueue_Get (fakeController v s s' d q) = q"
  "klog_v (fakeController v s s' d q) = 0"
  "deploymentsLister (fakeController v s s' None q) ns n = Inl notFound"
  "deploymentsLister (fakeController v s s' (Some dep) q) ns n =
     (if ns = Namespace (depl_ObjectMeta dep) \<and> n = Name (depl_ObjectMeta dep) then Inr dep else Inl notFound)"
  by (simp_all add: fakeController_def)

lemma IsNotFound_notFound [simp]: "IsNotFound notFound"
  by (simp add: notFound_def IsNotFound_def)

theorem supporting_objects_ensured_in_order_witness:
  "filter is_supporting_call
     (snd (syncHandler imports0 (fakeController (Some (router_r1 (Some 2) 0)) False False None (AOther, True))
             ''default/r1''))
     = [NamespacesGet ''r1'',
        NamespacesCreate (namespaceLiteral imports0 ''r1'' (router_r1 (Some 2) 0)),
        ServiceAccountsGet ''r1'' ''virtualrouter-sa'',
        ServiceAccountsCreate ''r1'' (serviceAccountLiteral imports0 ''r1'' (router_r1 (Some 2) 0)),
        RolesGet ''r1'' ''virtualrouter-role'',
        RolesCreate ''r1'' (roleLiteral imports0 ''r1'' (router_r1 (Some 2) 0)),
        RoleBindingsGet ''r1'' ''virtualrouter-rb'',
        RoleBindingsCreate ''r1'' (roleBindingLiteral imports0 ''r1'' (router_r1 (Some 2) 0))]
   \<and> DeploymentsListerGet ''r1'' ''d1''
        \<in> set (snd (syncHandler imports0
                       (fakeController (Some (router_r1 (Some 2) 0)) False False None (AOther, True))
                       ''default/r1''))
   \<and> Name (nso_ObjectMeta (namespaceLiteral imports0 ''r1'' (router_r1 (Some 2) 0))) = ''r1''
   \<and> Name (sa_ObjectMeta (serviceAccountLiteral imports0 ''r1'' (router_r1 (Some 2) 0)))
       = ''virtualrouter-sa''
   \<and> Namespace (sa_ObjectMeta (serviceAccountLiteral imports0 ''r1'' (router_r1 (Some 2) 0)))
       = ''r1''
   \<and> Name (role_ObjectMeta (roleLiteral imports0 ''r1'' (router_r1 (Some 2) 0)))
       = ''virtualrouter-role''
   \<and> Namespace (role_ObjectMeta (roleLiteral imports0 ''r1'' (router_r1 (Some 2) 0))) = ''r1''
   \<and> Name (rb_ObjectMeta (roleBindingLiteral imports0 ''r1'' (router_r1 (Some 2) 0)))
       = ''virtualrouter-rb''
   \<and> Namespace (rb_ObjectMeta (roleBindingLiteral imports0 ''r1'' (router_r1 (Some 2) 0)))
       = ''r1''
   \<and> OwnerReferences (sa_ObjectMeta (serviceAccountLiteral imports0 ''r1'' (router_r1 (Some 2) 0)))
       = [\<lparr>ref_APIVersion = ''tmax.hypercloud.com/v1'', ref_Kind = ''VirtualRouter'',
           ref_Name = ''r1'', ref_UID = ''uid-r1'', ref_Controller = Some True,
           ref_BlockOwnerDeletion = Some True\<rparr>]"
  using supporting_objects_ensured_in_order
    [where key = "''default/r1''" and namespace = "''default''" and name = "''r1''"
       and c = "fakeController (Some (router_r1 (Some 2) 0)) False False None (AOther, True)"
       and vr = "router_r1 (Some 2) 0" and imp = imports0, OF key_default_r1]
  by (simp add: spec_supporting_objects_def spec_ensure_def after_def Let_def
        SERVICE_ACCOUNT_NAME_def ROLE_NAME_def ROLE_BINDING_NAME_def
        GroupVersion_String_def WithKind_def imports0_def)

subsection \<open>Terminal conditions\<close>

text \<open>
  C3. In each of the three terminal conditions syncHandler returns nil, its last effect is
  the error it hands to the logging error handler, and it issues no write: when the key
  does not split into namespace and name it makes no call at all, when the lister answers
  NotFound for the intent, or the intent's deploymentName is empty, its only call is that
  cached read.
\<close>

theorem syncHandler_terminal_conditions:
  "(\<forall>err. SplitMetaNamespaceKey key = Inl err \<longrightarrow>
      syncHandler imp c key =
        (Return None,
         [KlogInfo [ArgStr key], HandleError (Errorf ''invalid resource key: %s'' [ArgStr key])])
      \<and> writes (snd (syncHandler imp c key)) = [])
   \<and> (\<forall>namespace name err.
        SplitMetaNamespaceKey key = Inr (namespace, name)
        \<and> virtualRoutersLister c namespace name = Inl err \<and> IsNotFound err \<longrightarrow>
        syncHandler imp c key =
          (Return None,
           [KlogInfo [ArgStr key], VirtualRoutersListerGet namespace name,
            HandleError (Errorf ''virtualRouter '%s' in work queue no longer exists'' [ArgStr key])])
        \<and> writes (snd (syncHandler imp c key)) = [])
   \<and> (\<forall>namespace name vr.
        SplitMetaNamespaceKey key = Inr (namespace, name)
        \<and> virtualRoutersLister c namespace name = Inr vr
        \<and> DeploymentName (vr_Spec vr) = [] \<longrightarrow>
        syncHandler imp c key =
          (Return None,
           [KlogInfo [ArgStr key], VirtualRoutersListerGet namespace name,
            HandleError (Errorf ''%s: deployment name must be specified'' [ArgStr key])])
        \<and> writes (snd (syncHandler imp c key)) = [])"
  by (simp add: syncHandler_def writes_def)

lemma key_three_parts: "SplitMetaNamespaceKey ''a/b/c'' = Inl (Errorf ''unexpected key format: %q'' [ArgStr ''a/b/c''])"
  by (simp add: SplitMetaNamespaceKey_def)

theorem syncHandler_terminal_conditions_witness:
  "fst (syncHandler imports0 (fakeController None True True None (AOther, True)) ''a/b/c'') = Return None
   \<and> writes (snd (syncHandler imports0 (fakeController None True True None (AOther, True)) ''a/b/c'')) = []
   \<and> fst (syncHandler imports0 (fakeController None True True None (AOther, True)) ''default/r1'')
       = Return None
   \<and> writes (snd (syncHandler imports0 (fakeController None True True None (AOther, True)) ''default/r1''))
       = []
   \<and> fst (syncHandler imports0
             (fakeController (Some ((router_r1 None 0)\<lparr>vr_Spec := (vr_Spec (router_r1 None 0))\<lparr>DeploymentName := []\<rparr>\<rparr>))
                True True None (AOther, True)) ''default/r1'') = Return None
   \<and> writes (snd (syncHandler imports0
             (fakeController (Some ((router_r1 None 0)\<lparr>vr_Spec := (vr_Spec (router_r1 None 0))\<lparr>DeploymentName := []\<rparr>\<rparr>))
                True True None (AOther, True)) ''default/r1'')) = []"
proof -
  let ?c = "fakeController None True True None (AOther, True)"
  let ?v = "(router_r1 None 0)\<lparr>vr_Spec := (vr_Spec (router_r1 None 0))\<lparr>DeploymentName := []\<rparr>\<rparr>"
  let ?c' = "fakeController (Some ?v) True True None (AOther, True)"
  have 1: "virtualRoutersLister ?c ''default'' ''r1'' = Inl notFound"
    by (simp add: fakeController_def)
  have 2: "virtualRoutersLister ?c' ''default'' ''r1'' = Inr ?v"
    by (simp add: fakeController_def)
  have 3: "DeploymentName (vr_Spec ?v) = []"
    by simp
  from syncHandler_terminal_conditions [of "''a/b/c''" imports0 ?c] key_three_parts
  have a: "fst (syncHandler imports0 ?c ''a/b/c'') = Return None
           \<and> writes (snd (syncHandler imports0 ?c ''a/b/c'')) = []"
    by (simp add: writes_def)
  from syncHandler_terminal_conditions [of "''default/r1''" imports0 ?c] key_default_r1 1
  have b: "fst (syncHandler imports0 ?c ''default/r1'') = Return None
           \<and> writes (snd (syncHandler imports0 ?c ''default/r1'')) = []"
    by (simp add: writes_def)
  from syncHandler_terminal_conditions [of "''default/r1''" imports0 ?c'] key_default_r1 2 3
  have c: "fst (syncHandler imports0 ?c' ''default/r1'') = Return None
           \<and> writes (snd (syncHandler imports0 ?c' ''default/r1'')) = []"
    by (simp add: writes_def)
  from a b c show ?thesis by simp
qed

subsection \<open>The status write\<close>

lemma mem_filter_status:
  "VirtualRoutersUpdate ns obj \<in> set t \<longleftrightarrow> VirtualRoutersUpdate ns obj \<in> set (filter is_status_write t)"
  by simp

lemma deployment_status_write:
  assumes "VirtualRoutersUpdate ns obj \<in> set (snd (syncHandler_deployment imp c name vr newNS dn))"
  shows "\<exists>d. obj = vr\<lparr>vr_Status := (vr_Status vr)\<lparr>AvailableReplicas := depl_AvailableReplicas (depl_Status d)\<rparr>\<rparr>
           \<and> ns = Namespace (vr_ObjectMeta vr)
           \<and> (if filter is_deployment_update (snd (syncHandler_deployment imp c name vr newNS dn)) \<noteq> []
               then Deployments_Update c newNS (newDeployment imp newNS vr) = Inr d
               else if filter is_deployment_create (snd (syncHandler_deployment imp c name vr newNS dn)) \<noteq> []
               then Deployments_Create c newNS (newDeployment imp newNS vr) = Inr d
               else deploymentsLister c newNS dn = Inr d)
           \<and> filter is_status_write (snd (syncHandler_deployment imp c name vr newNS dn))
               = [VirtualRoutersUpdate ns obj]"
proof (cases "deploymentsLister c newNS dn")
  case (Inr d0)
  note eq = syncHandler_deployment_found [OF Inr, of imp name vr]
  from assms have "VirtualRoutersUpdate ns obj \<in> set (snd (syncHandler_converge imp c name vr newNS d0))"
    by (simp add: eq)
  from converge_status_write [OF this] Inr show ?thesis
    by (auto simp add: eq)
next
  case (Inl err)
  show ?thesis
  proof (cases "IsNotFound err")
    case False
    with assms Inl show ?thesis by (simp add: syncHandler_deployment_error)
  next
    case True
    note eq = syncHandler_deployment_absent [OF Inl True, of imp name vr]
    show ?thesis
    proof (cases "Deployments_Create c newNS (newDeployment imp newNS vr)")
      case (Inl err')
      with assms eq show ?thesis by simp
    next
      case (Inr d0)
      with assms eq
      have "VirtualRoutersUpdate ns obj \<in> set (snd (syncHandler_converge imp c name vr newNS d0))"
        by simp
      from converge_status_write [OF this] Inr eq show ?thesis
        by auto
    qed
  qed
qed

lemma status_events:
  "RecorderEvent v ty r m \<in> set (snd (syncHandler_status c vr d)) \<Longrightarrow> v = vr"
  by (auto simp add: syncHandler_status_eq split: option.splits)

lemma klog_V4_no_event [simp]: "RecorderEvent v ty r m \<notin> set (klog_V4_Infof c f args)"
  by (simp add: klog_V4_Infof_def)

lemma converge_events:
  "RecorderEvent v ty r m \<in> set (snd (syncHandler_converge imp c name vr newNS d)) \<Longrightarrow> v = vr"
  by (auto simp add: syncHandler_converge_def Let_def split: option.splits sum.splits if_splits
        dest: status_events)

lemma deployment_events:
  "RecorderEvent v ty r m \<in> set (snd (syncHandler_deployment imp c name vr newNS dn)) \<Longrightarrow> v = vr"
  by (auto simp add: syncHandler_deployment_def Let_def split: sum.splits if_splits
        dest: converge_events)

lemma ensure_events [simp]:
  "RecorderEvent v ty r m \<notin> set (snd (ensureVirtualRouterNamespace imp c newNS vr))"
  "RecorderEvent v ty r m \<notin> set (snd (ensureVirtualRouterSA imp c newNS vr))"
  "RecorderEvent v ty r m \<notin> set (snd (ensureVirtualRouterRole imp c newNS vr))"
  "RecorderEvent v ty r m \<notin> set (snd (ensureVirtualRouterRoleBinding imp c newNS vr))"
  by (simp_all add: ensureVirtualRouterNamespace_def ensureVirtualRouterSA_def
        ensureVirtualRouterRole_def ensureVirtualRouterRoleBinding_def split: option.splits)

lemma sync_events:
  assumes "SplitMetaNamespaceKey key = Inr (namespace, name)"
    and "virtualRoutersLister c namespace name = Inr vr"
    and "DeploymentName (vr_Spec vr) \<noteq> []"
    and "RecorderEvent v ty r m \<in> set (snd (syncHandler imp c key))"
  shows "v = vr"
  using assms(4) unfolding syncHandler_validated [OF assms(1-3)]
  by (auto simp add: case_prod_beta split: option.splits dest: deployment_events)

lemma sync_ensure_success_filters:
  assumes "SplitMetaNamespaceKey key = Inr (namespace, name)"
    and "virtualRoutersLister c namespace name = Inr vr"
    and "DeploymentName (vr_Spec vr) \<noteq> []"
    and "fst (spec_ensure_in_order
             [ensureVirtualRouterNamespace imp c (Name (vr_ObjectMeta vr)) vr,
              ensureVirtualRouterSA imp c (Name (vr_ObjectMeta vr)) vr,
              ensureVirtualRouterRole imp c (Name (vr_ObjectMeta vr)) vr,
              ensureVirtualRouterRoleBinding imp c (Name (vr_ObjectMeta vr)) vr]) = None"
  shows "filter is_status_write (snd (syncHandler imp c key)) =
           filter is_status_write
             (snd (syncHandler_deployment imp c name vr (Name (vr_ObjectMeta vr)) (DeploymentName (vr_Spec vr))))"
    and "filter is_deployment_update (snd (syncHandler imp c key)) =
           filter is_deployment_update
             (snd (syncHandler_deployment imp c name vr (Name (vr_ObjectMeta vr)) (DeploymentName (vr_Spec vr))))"
    and "filter is_deployment_create (snd (syncHandler imp c key)) =
           filter is_deployment_create
             (snd (syncHandler_deployment imp c name vr (Name (vr_ObjectMeta vr)) (DeploymentName (vr_Spec vr))))"
    and "filter is_managed_write (snd (syncHandler imp c key)) =
           filter is_managed_write
             (snd (syncHandler_deployment imp c name vr (Name (vr_ObjectMeta vr)) (DeploymentName (vr_Spec vr))))"
  using assms(4) unfolding syncHandler_validated [OF assms(1-3)] spec_ensure_in_order_4
  by (simp_all add: case_prod_beta split: option.splits)

lemma status_write_needs_validation:
  assumes "VirtualRoutersUpdate ns obj \<in> set (snd (syncHandler imp c key))"
  shows "\<exists>namespace name vr. SplitMetaNamespaceKey key = Inr (namespace, name)
           \<and> virtualRoutersLister c namespace name = Inr vr \<and> DeploymentName (vr_Spec vr) \<noteq> []"
proof (cases "SplitMetaNamespaceKey key")
  case (Inl err)
  with assms show ?thesis by (simp add: syncHandler_def)
next
  case (Inr p)
  obtain namespace name where p: "p = (namespace, name)" by (cases p)
  show ?thesis
  proof (cases "virtualRoutersLister c namespace name")
    case (Inl err)
    with assms Inr p show ?thesis by (simp add: syncHandler_def split: if_splits)
  next
    case vr: (Inr vr)
    show ?thesis
    proof (cases "DeploymentName (vr_Spec vr) = []")
      case True
      with assms Inr p vr show ?thesis by (simp add: syncHandler_def)
    next
      case False
      with Inr p vr show ?thesis by simp
    qed
  qed
qed

text \<open>
  C8. Every status write of a sync carries the VirtualRouter the lister returned with one
  field changed: Status.AvailableReplicas, set to the AvailableReplicas of the Deployment in
  hand (the answer to the last Deployment call of this sync: the update if one was issued,
  else the create if one was issued, else the cached read). Spec and metadata of the body
  equal those of the cached object, the write goes to the cached object's namespace, and a
  sync issues at most this one status write. The write goes through a copy: in the object
  store, after updateVirtualRouterStatus the cell of the cached object still holds what the
  lister returned, and every event of the sync has that unmodified object as its subject.
\<close>

theorem status_write_is_copy_of_cached_object:
  assumes "VirtualRoutersUpdate ns obj \<in> set (snd (syncHandler imp c key))"
  shows "\<exists>namespace name vr d st.
           SplitMetaNamespaceKey key = Inr (namespace, name)
         \<and> virtualRoutersLister c namespace name = Inr vr
         \<and> (if filter is_deployment_update (snd (syncHandler imp c key)) \<noteq> []
             then Deployments_Update c (Name (vr_ObjectMeta vr))
                    (newDeployment imp (Name (vr_ObjectMeta vr)) vr) = Inr d
             else if filter is_deployment_create (snd (syncHandler imp c key)) \<noteq> []
             then Deployments_Create c (Name (vr_ObjectMeta vr))
                    (newDeployment imp (Name (vr_ObjectMeta vr)) vr) = Inr d
             else deploymentsLister c (Name (vr_ObjectMeta vr)) (DeploymentName (vr_Spec vr)) = Inr d)
         \<and> obj = vr\<lparr>vr_Status := (vr_Status vr)
                        \<lparr>AvailableReplicas := depl_AvailableReplicas (depl_Status d)\<rparr>\<rparr>
         \<and> vr_Spec obj = vr_Spec vr
         \<and> vr_ObjectMeta obj = vr_ObjectMeta vr
         \<and> ns = Namespace (vr_ObjectMeta vr)
         \<and> filter is_status_write (snd (syncHandler imp c key)) = [VirtualRoutersUpdate ns obj]
         \<and> updateVirtualRouterStatus c (cacheStore vr) 0 d
             = (Return (VirtualRouters_Update c ns obj), [VirtualRoutersUpdate ns obj], st)
         \<and> cells st 0 = Some vr
         \<and> (\<forall>v ty r m. RecorderEvent v ty r m \<in> set (snd (syncHandler imp c key)) \<longrightarrow> v = vr)"
proof -
  from status_write_needs_validation [OF assms]
  obtain namespace name vr where
    v: "SplitMetaNamespaceKey key = Inr (namespace, name)"
       "virtualRoutersLister c namespace name = Inr vr"
       "DeploymentName (vr_Spec vr) \<noteq> []"
    by blast
  let ?newNS = "Name (vr_ObjectMeta vr)"
  let ?chain = "fst (spec_ensure_in_order
             [ensureVirtualRouterNamespace imp c ?newNS vr,
              ensureVirtualRouterSA imp c ?newNS vr,
              ensureVirtualRouterRole imp c ?newNS vr,
              ensureVirtualRouterRoleBinding imp c ?newNS vr])"
  from assms have managed: "VirtualRoutersUpdate ns obj \<in> set (filter is_managed_write (snd (syncHandler imp c key)))"
    by simp
  have ok: "?chain = None"
  proof (cases ?chain)
    case None then show ?thesis .
  next
    case (Some err)
    from sync_ensure_failure [OF v Some] managed show ?thesis by simp
  qed
  note f = sync_ensure_success_filters [OF v ok]
  from assms have "VirtualRoutersUpdate ns obj \<in> set (filter is_status_write (snd (syncHandler imp c key)))"
    by simp
  then have "VirtualRoutersUpdate ns obj
      \<in> set (snd (syncHandler_deployment imp c name vr ?newNS (DeploymentName (vr_Spec vr))))"
    unfolding f(1) by simp
  from deployment_status_write [OF this]
  obtain d where d:
    "obj = vr\<lparr>vr_Status := (vr_Status vr)\<lparr>AvailableReplicas := depl_AvailableReplicas (depl_Status d)\<rparr>\<rparr>"
    "ns = Namespace (vr_ObjectMeta vr)"
    "(if filter is_deployment_update (snd (syncHandler imp c key)) \<noteq> []
      then Deployments_Update c ?newNS (newDeployment imp ?newNS vr) = Inr d
      else if filter is_deployment_create (snd (syncHandler imp c key)) \<noteq> []
      then Deployments_Create c ?newNS (newDeployment imp ?newNS vr) = Inr d
      else deploymentsLister c ?newNS (DeploymentName (vr_Spec vr)) = Inr d)"
    "filter is_status_write (snd (syncHandler imp c key)) = [VirtualRoutersUpdate ns obj]"
    unfolding f by blast
  have store: "updateVirtualRouterStatus c (cacheStore vr) 0 d
      = (Return (VirtualRouters_Update c ns obj), [VirtualRoutersUpdate ns obj],
         (cacheStore vr)\<lparr>cells := (cells (cacheStore vr))(next_free (cacheStore vr) \<mapsto> obj),
                          next_free := Suc (next_free (cacheStore vr))\<rparr>)"
    unfolding d(1,2)
    by (rule updateVirtualRouterStatus_store) (simp_all add: cacheStore_def)
  have cell: "cells ((cacheStore vr)\<lparr>cells := (cells (cacheStore vr))(next_free (cacheStore vr) \<mapsto> obj),
                          next_free := Suc (next_free (cacheStore vr))\<rparr>) 0 = Some vr"
    by (simp add: cacheStore_def)
  have ev: "\<forall>v ty r m. RecorderEvent v ty r m \<in> set (snd (syncHandler imp c key)) \<longrightarrow> v = vr"
    using sync_events [OF v] by blast
  have frame: "vr_Spec obj = vr_Spec vr" "vr_ObjectMeta obj = vr_ObjectMeta vr"
    by (simp_all add: d(1))
  from v(1,2) d(3) d(1) frame d(2) d(4) store cell ev show ?thesis
    by blast
qed

lemma fake_ensure_present [simp]:
  "ensureVirtualRouterNamespace imp (fakeController v True s' d q) newNS vr = (None, [NamespacesGet newNS])"
  "ensureVirtualRouterSA imp (fakeController v s True d q) newNS vr
     = (None, [ServiceAccountsGet newNS ''virtualrouter-sa''])"
  "ensureVirtualRouterRole imp (fakeController v s True d q) newNS vr
     = (None, [RolesGet newNS ''virtualrouter-role''])"
  "ensureVirtualRouterRoleBinding imp (fakeController v s True d q) newNS vr
     = (None, [RoleBindingsGet newNS ''virtualrouter-rb''])"
  by (simp_all add: ensureVirtualRouterNamespace_def ensureVirtualRouterSA_def
        ensureVirtualRouterRole_def ensureVirtualRouterRoleBinding_def
        SERVICE_ACCOUNT_NAME_def ROLE_NAME_def ROLE_BINDING_NAME_def)

lemma fake_ensure_absent [simp]:
  "ensureVirtualRouterNamespace imp (fakeController v False s' d q) newNS vr
     = (None, [NamespacesGet newNS, NamespacesCreate (namespaceLiteral imp newNS vr)])"
  "ensureVirtualRouterSA imp (fakeController v s False d q) newNS vr
     = (None, [ServiceAccountsGet newNS ''virtualrouter-sa'',
               ServiceAccountsCreate newNS (serviceAccountLiteral imp newNS vr)])"
  "ensureVirtualRouterRole imp (fakeController v s False d q) newNS vr
     = (None, [RolesGet newNS ''virtualrouter-role'', RolesCreate newNS (roleLiteral imp newNS vr)])"
  "ensureVirtualRouterRoleBinding imp (fakeController v s False d q) newNS vr
     = (None, [RoleBindingsGet newNS ''virtualrouter-rb'',
               RoleBindingsCreate newNS (roleBindingLiteral imp newNS vr)])"
  by (simp_all add: ensureVirtualRouterNamespace_def ensureVirtualRouterSA_def
        ensureVirtualRouterRole_def ensureVirtualRouterRoleBinding_def
        SERVICE_ACCOUNT_NAME_def ROLE_NAME_def ROLE_BINDING_NAME_def)

lemma fake_sync_r1:
  "syncHandler imp (fakeController (Some (router_r1 r a)) s s' d q) ''default/r1'' =
     after ([KlogInfo [ArgStr ''default/r1''], VirtualRoutersListerGet ''default'' ''r1'']
            @ snd (ensureVirtualRouterNamespace imp (fakeController (Some (router_r1 r a)) s s' d q) ''r1'' (router_r1 r a))
            @ snd (ensureVirtualRouterSA imp (fakeController (Some (router_r1 r a)) s s' d q) ''r1'' (router_r1 r a))
            @ snd (ensureVirtualRouterRole imp (fakeController (Some (router_r1 r a)) s s' d q) ''r1'' (router_r1 r a))
            @ snd (ensureVirtualRouterRoleBinding imp (fakeController (Some (router_r1 r a)) s s' d q) ''r1'' (router_r1 r a)))
       (syncHandler_deployment imp (fakeController (Some (router_r1 r a)) s s' d q) ''r1'' (router_r1 r a) ''r1'' ''d1'')"
  using syncHandler_reaches_deployment
    [where key = "''default/r1''" and namespace = "''default''" and name = "''r1''"
       and c = "fakeController (Some (router_r1 r a)) s s' d q" and vr = "router_r1 r a" and imp = imp,
     OF key_default_r1]
  by (cases s; cases s') simp_all

lemma owned_d1_fields [simp]:
  "Name (depl_ObjectMeta owned_d1) = ''d1''"
  "Namespace (depl_ObjectMeta owned_d1) = ''r1''"
  "depl_Replicas (depl_Spec owned_d1) = Some 2"
  "depl_AvailableReplicas (depl_Status owned_d1) = 2"
  "IsControlledBy (depl_ObjectMeta owned_d1) (vr_ObjectMeta (router_r1 r a))"
  by (simp_all add: owned_d1_def newDeployment_def Let_def ObjectMeta_zero_def
        IsControlledBy_def GetControllerOf_def NewControllerRef_def)

lemma fake_sync_converged:
  "syncHandler imp (fakeController (Some (router_r1 (Some 2) 0)) True True (Some owned_d1) q) ''default/r1'' =
     (Return None,
      [KlogInfo [ArgStr ''default/r1''], VirtualRoutersListerGet ''default'' ''r1'',
       NamespacesGet ''r1'', ServiceAccountsGet ''r1'' ''virtualrouter-sa'',
       RolesGet ''r1'' ''virtualrouter-role'', RoleBindingsGet ''r1'' ''virtualrouter-rb'',
       DeploymentsListerGet ''r1'' ''d1'',
       VirtualRoutersUpdate ''default''
         ((router_r1 (Some 2) 0)\<lparr>vr_Status := (vr_Status (router_r1 (Some 2) 0))\<lparr>AvailableReplicas := 2\<rparr>\<rparr>),
       RecorderEvent (router_r1 (Some 2) 0) EventTypeNormal SuccessSynced
         (ArgStr MessageResourceSynced)])"
  by (simp add: fake_sync_r1 syncHandler_deployment_found
        converge_equal_replicas [where n = 2] syncHandler_status_eq after_def)

theorem status_write_is_copy_of_cached_object_witness:
  "VirtualRoutersUpdate ''default''
     ((router_r1 (Some 2) 0)\<lparr>vr_Status := (vr_Status (router_r1 (Some 2) 0))\<lparr>AvailableReplicas := 2\<rparr>\<rparr>)
     \<in> set (snd (syncHandler imports0
                   (fakeController (Some (router_r1 (Some 2) 0)) True True (Some owned_d1) (AOther, True))
                   ''default/r1''))
   \<and> filter is_status_write
        (snd (syncHandler imports0
                (fakeController (Some (router_r1 (Some 2) 0)) True True (Some owned_d1) (AOther, True))
                ''default/r1''))
       = [VirtualRoutersUpdate ''default''
            ((router_r1 (Some 2) 0)\<lparr>vr_Status := (vr_Status (router_r1 (Some 2) 0))\<lparr>AvailableReplicas := 2\<rparr>\<rparr>)]"
proof -
  have mem: "VirtualRoutersUpdate ''default''
     ((router_r1 (Some 2) 0)\<lparr>vr_Status := (vr_Status (router_r1 (Some 2) 0))\<lparr>AvailableReplicas := 2\<rparr>\<rparr>)
     \<in> set (snd (syncHandler imports0
                   (fakeController (Some (router_r1 (Some 2) 0)) True True (Some owned_d1) (AOther, True))
                   ''default/r1''))"
    by (simp add: fake_sync_converged)
  from status_write_is_copy_of_cached_object [OF mem] have
    "filter is_status_write
        (snd (syncHandler imports0
                (fakeController (Some (router_r1 (Some 2) 0)) True True (Some owned_d1) (AOther, True))
                ''default/r1''))
       = [VirtualRoutersUpdate ''default''
            ((router_r1 (Some 2) 0)\<lparr>vr_Status := (vr_Status (router_r1 (Some 2) 0))\<lparr>AvailableReplicas := 2\<rparr>\<rparr>)]"
    by blast
  with mem show ?thesis by simp
qed

subsection \<open>The conflict with a foreign Deployment\<close>

lemma ensure_present:
  "Namespaces_Get c newNS = None \<Longrightarrow>
     ensureVirtualRouterNamespace imp c newNS vr = (None, [NamespacesGet newNS])"
  "ServiceAccounts_Get c newNS SERVICE_ACCOUNT_NAME = None \<Longrightarrow>
     ensureVirtualRouterSA imp c newNS vr = (None, [ServiceAccountsGet newNS SERVICE_ACCOUNT_NAME])"
  "Roles_Get c newNS ROLE_NAME = None \<Longrightarrow>
     ensureVirtualRouterRole imp c newNS vr = (None, [RolesGet newNS ROLE_NAME])"
  "RoleBindings_Get c newNS ROLE_BINDING_NAME = None \<Longrightarrow>
     ensureVirtualRouterRoleBinding imp c newNS vr = (None, [RoleBindingsGet newNS ROLE_BINDING_NAME])"
  by (simp_all add: ensureVirtualRouterNamespace_def ensureVirtualRouterSA_def
        ensureVirtualRouterRole_def ensureVirtualRouterRoleBinding_def)

lemma write_kinds: "is_write e \<Longrightarrow> is_supporting_call e \<or> is_managed_write e"
  by (cases e) simp_all

lemma writes_supporting_only:
  assumes "filter is_managed_write t = []"
  shows "\<forall>e \<in> set (writes t). is_supporting_call e"
proof
  fix e assume "e \<in> set (writes t)"
  then have e: "e \<in> set t" "is_write e" by (simp_all add: writes_def)
  from assms e(1) have "\<not> is_managed_write e" by (auto simp add: filter_empty_conv)
  with write_kinds [OF e(2)] show "is_supporting_call e" by simp
qed

lemma sync_foreign:
  assumes "SplitMetaNamespaceKey key = Inr (namespace, name)"
    and "virtualRoutersLister c namespace name = Inr vr"
    and "DeploymentName (vr_Spec vr) \<noteq> []"
    and "fst (ensureVirtualRouterNamespace imp c (Name (vr_ObjectMeta vr)) vr) = None"
    and "fst (ensureVirtualRouterSA imp c (Name (vr_ObjectMeta vr)) vr) = None"
    and "fst (ensureVirtualRouterRole imp c (Name (vr_ObjectMeta vr)) vr) = None"
    and "fst (ensureVirtualRouterRoleBinding imp c (Name (vr_ObjectMeta vr)) vr) = None"
    and "deploymentsLister c (Name (vr_ObjectMeta vr)) (DeploymentName (vr_Spec vr)) = Inr d"
    and "\<not> IsControlledBy (depl_ObjectMeta d) (vr_ObjectMeta vr)"
  shows "syncHandler imp c key =
     (Return (Some (ErrorfText (Sprintf MessageResourceExists [ArgStr (Name (depl_ObjectMeta d))]))),
      [KlogInfo [ArgStr key], VirtualRoutersListerGet namespace name]
      @ snd (ensureVirtualRouterNamespace imp c (Name (vr_ObjectMeta vr)) vr)
      @ snd (ensureVirtualRouterSA imp c (Name (vr_ObjectMeta vr)) vr)
      @ snd (ensureVirtualRouterRole imp c (Name (vr_ObjectMeta vr)) vr)
      @ snd (ensureVirtualRouterRoleBinding imp c (Name (vr_ObjectMeta vr)) vr)
      @ [DeploymentsListerGet (Name (vr_ObjectMeta vr)) (DeploymentName (vr_Spec vr)),
         RecorderEvent vr EventTypeWarning ErrResourceExists
           (Sprintf MessageResourceExists [ArgStr (Name (depl_ObjectMeta d))])])"
  unfolding syncHandler_reaches_deployment [OF assms(1-7)]
    syncHandler_deployment_found [OF assms(8)] converge_foreign [OF assms(9)]
  by (simp add: after_def)

text \<open>
  C2 as the code has it. When a sync has brought the supporting objects through (each of
  the four ensure steps returned nil) and the lister holds a Deployment of the intent's
  deploymentName in the private namespace that is not controlled by this VirtualRouter,
  sync returns a non-nil error, its last effect is a warning event against the intent
  object, and it writes neither to the Deployment nor to the intent object. The only
  writes it can have issued are the creations of supporting objects that were absent: when
  the four supporting objects are all present, it issues no write at all.
\<close>

theorem foreign_deployment_conflict:
  assumes "SplitMetaNamespaceKey key = Inr (namespace, name)"
    and "virtualRoutersLister c namespace name = Inr vr"
    and "DeploymentName (vr_Spec vr) \<noteq> []"
    and "fst (ensureVirtualRouterNamespace imp c (Name (vr_ObjectMeta vr)) vr) = None"
    and "fst (ensureVirtualRouterSA imp c (Name (vr_ObjectMeta vr)) vr) = None"
    and "fst (ensureVirtualRouterRole imp c (Name (vr_ObjectMeta vr)) vr) = None"
    and "fst (ensureVirtualRouterRoleBinding imp c (Name (vr_ObjectMeta vr)) vr) = None"
    and "deploymentsLister c (Name (vr_ObjectMeta vr)) (DeploymentName (vr_Spec vr)) = Inr d"
    and "\<not> IsControlledBy (depl_ObjectMeta d) (vr_ObjectMeta vr)"
  shows "fst (syncHandler imp c key)
           = Return (Some (ErrorfText
               (Sprintf MessageResourceExists [ArgStr (Name (depl_ObjectMeta d))])))
       \<and> last (snd (syncHandler imp c key))
           = RecorderEvent vr EventTypeWarning ErrResourceExists
               (Sprintf MessageResourceExists [ArgStr (Name (depl_ObjectMeta d))])
       \<and> filter is_managed_write (snd (syncHandler imp c key)) = []
       \<and> (\<forall>e \<in> set (writes (snd (syncHandler imp c key))). is_supporting_call e)
       \<and> (Namespaces_Get c (Name (vr_ObjectMeta vr)) = None
          \<and> ServiceAccounts_Get c (Name (vr_ObjectMeta vr)) SERVICE_ACCOUNT_NAME = None
          \<and> Roles_Get c (Name (vr_ObjectMeta vr)) ROLE_NAME = None
          \<and> RoleBindings_Get c (Name (vr_ObjectMeta vr)) ROLE_BINDING_NAME = None
          \<longrightarrow> writes (snd (syncHandler imp c key)) = [])"
proof -
  note eq = sync_foreign [OF assms]
  have managed: "filter is_managed_write (snd (syncHandler imp c key)) = []"
    by (simp add: eq)
  have "Namespaces_Get c (Name (vr_ObjectMeta vr)) = None
          \<and> ServiceAccounts_Get c (Name (vr_ObjectMeta vr)) SERVICE_ACCOUNT_NAME = None
          \<and> Roles_Get c (Name (vr_ObjectMeta vr)) ROLE_NAME = None
          \<and> RoleBindings_Get c (Name (vr_ObjectMeta vr)) ROLE_BINDING_NAME = None
          \<longrightarrow> writes (snd (syncHandler imp c key)) = []"
    by (simp add: eq ensure_present writes_def)
  with managed writes_supporting_only [OF managed] show ?thesis
    by (simp add: eq)
qed

lemma foreign_d1_fields [simp]:
  "Name (depl_ObjectMeta foreign_d1) = ''d1''"
  "Namespace (depl_ObjectMeta foreign_d1) = ''r1''"
  "\<not> IsControlledBy (depl_ObjectMeta foreign_d1) owner"
  by (simp_all add: foreign_d1_def ObjectMeta_zero_def IsControlledBy_def GetControllerOf_def)

lemma fake_sync_foreign:
  "syncHandler imports0
     (fakeController (Some (router_r1 (Some 2) 0)) True False (Some foreign_d1) q) ''default/r1'' =
   (Return (Some (ErrorfText (Sprintf MessageResourceExists [ArgStr ''d1'']))),
    [KlogInfo [ArgStr ''default/r1''], VirtualRoutersListerGet ''default'' ''r1'',
     NamespacesGet ''r1'',
     ServiceAccountsGet ''r1'' ''virtualrouter-sa'',
     ServiceAccountsCreate ''r1'' (serviceAccountLiteral imports0 ''r1'' (router_r1 (Some 2) 0)),
     RolesGet ''r1'' ''virtualrouter-role'',
     RolesCreate ''r1'' (roleLiteral imports0 ''r1'' (router_r1 (Some 2) 0)),
     RoleBindingsGet ''r1'' ''virtualrouter-rb'',
     RoleBindingsCreate ''r1'' (roleBindingLiteral imports0 ''r1'' (router_r1 (Some 2) 0)),
     DeploymentsListerGet ''r1'' ''d1'',
     RecorderEvent (router_r1 (Some 2) 0) EventTypeWarning ErrResourceExists
       (Sprintf MessageResourceExists [ArgStr ''d1''])])"
  by (simp add: fake_sync_r1 syncHandler_deployment_found converge_foreign after_def)

theorem foreign_deployment_zero_writes_counterexample:
  "deploymentsLister
     (fakeController (Some (router_r1 (Some 2) 0)) True False (Some foreign_d1) (AOther, True))
     ''r1'' ''d1'' = Inr foreign_d1
   \<and> \<not> IsControlledBy (depl_ObjectMeta foreign_d1) (vr_ObjectMeta (router_r1 (Some 2) 0))
   \<and> writes (snd (syncHandler imports0
        (fakeController (Some (router_r1 (Some 2) 0)) True False (Some foreign_d1) (AOther, True))
        ''default/r1''))
      = [ServiceAccountsCreate ''r1'' (serviceAccountLiteral imports0 ''r1'' (router_r1 (Some 2) 0)),
         RolesCreate ''r1'' (roleLiteral imports0 ''r1'' (router_r1 (Some 2) 0)),
         RoleBindingsCreate ''r1'' (roleBindingLiteral imports0 ''r1'' (router_r1 (Some 2) 0))]
   \<and> writes (snd (syncHandler imports0
        (fakeController (Some (router_r1 (Some 2) 0)) True False (Some foreign_d1) (AOther, True))
        ''default/r1'')) \<noteq> []"
  by (simp add: fake_sync_foreign writes_def)

theorem foreign_deployment_conflict_witness:
  "fst (syncHandler imports0
          (fakeController (Some (router_r1 (Some 2) 0)) True True (Some foreign_d1) (AOther, True))
          ''default/r1'')
     = Return (Some (ErrorfText (Sprintf MessageResourceExists [ArgStr ''d1''])))
   \<and> last (snd (syncHandler imports0
          (fakeController (Some (router_r1 (Some 2) 0)) True True (Some foreign_d1) (AOther, True))
          ''default/r1''))
     = RecorderEvent (router_r1 (Some 2) 0) EventTypeWarning ErrResourceExists
         (Sprintf MessageResourceExists [ArgStr ''d1''])
   \<and> writes (snd (syncHandler imports0
          (fakeController (Some (router_r1 (Some 2) 0)) True True (Some foreign_d1) (AOther, True))
          ''default/r1'')) = []"
  using foreign_deployment_conflict
    [where key = "''default/r1''" and namespace = "''default''" and name = "''r1''"
       and c = "fakeController (Some (router_r1 (Some 2) 0)) True True (Some foreign_d1) (AOther, True)"
       and vr = "router_r1 (Some 2) 0" and imp = imports0 and d = foreign_d1,
     OF key_default_r1]
  by simp

subsection \<open>Convergence of the owned Deployment\<close>

lemma sync_owned:
  assumes "SplitMetaNamespaceKey key = Inr (namespace, name)"
    and "virtualRoutersLister c namespace name = Inr vr"
    and "DeploymentName (vr_Spec vr) \<noteq> []"
    and "fst (ensureVirtualRouterNamespace imp c (Name (vr_ObjectMeta vr)) vr) = None"
    and "fst (ensureVirtualRouterSA imp c (Name (vr_ObjectMeta vr)) vr) = None"
    and "fst (ensureVirtualRouterRole imp c (Name (vr_ObjectMeta vr)) vr) = None"
    and "fst (ensureVirtualRouterRoleBinding imp c (Name (vr_ObjectMeta vr)) vr) = None"
    and "deploymentsLister c (Name (vr_ObjectMeta vr)) (DeploymentName (vr_Spec vr)) = Inr d"
  shows "syncHandler imp c key =
     after ([KlogInfo [ArgStr key], VirtualRoutersListerGet namespace name]
            @ snd (ensureVirtualRouterNamespace imp c (Name (vr_ObjectMeta vr)) vr)
            @ snd (ensureVirtualRouterSA imp c (Name (vr_ObjectMeta vr)) vr)
            @ snd (ensureVirtualRouterRole imp c (Name (vr_ObjectMeta vr)) vr)
            @ snd (ensureVirtualRouterRoleBinding imp c (Name (vr_ObjectMeta vr)) vr)
            @ [DeploymentsListerGet (Name (vr_ObjectMeta vr)) (DeploymentName (vr_Spec vr))])
       (syncHandler_converge imp c name vr (Name (vr_ObjectMeta vr)) d)"
  unfolding syncHandler_reaches_deployment [OF assms(1-7)] syncHandler_deployment_found [OF assms(8)]
  by (simp add: after_def)

lemma converge_update_calls:
  assumes "IsControlledBy (depl_ObjectMeta d) (vr_ObjectMeta vr)"
  shows "(Replicas (vr_Spec vr) = None \<longrightarrow>
            filter is_deployment_update (snd (syncHandler_converge imp c name vr newNS d)) = [])
       \<and> (\<forall>n m. Replicas (vr_Spec vr) = Some n \<and> depl_Replicas (depl_Spec d) = Some m \<longrightarrow>
            filter is_deployment_update (snd (syncHandler_converge imp c name vr newNS d))
              = (if n \<noteq> m then [DeploymentsUpdate newNS (newDeployment imp newNS vr)] else []))"
  using assms
  by (simp add: syncHandler_converge_def Let_def split: sum.splits)

text \<open>
  C6. When a sync has brought the supporting objects through and the lister holds the
  Deployment, controlled by the VirtualRouter: if the intent gives no replica count, no
  Deployment update is issued; if it gives one and the Deployment has one, sync issues
  exactly one update, with body \<open>newDeployment newNS virtualRouter\<close>, when the two
  differ, and none when they are equal. In neither case is a Deployment created.
\<close>

theorem owned_deployment_replica_update:
  assumes "SplitMetaNamespaceKey key = Inr (namespace, name)"
    and "virtualRoutersLister c namespace name = Inr vr"
    and "DeploymentName (vr_Spec vr) \<noteq> []"
    and "fst (ensureVirtualRouterNamespace imp c (Name (vr_ObjectMeta vr)) vr) = None"
    and "fst (ensureVirtualRouterSA imp c (Name (vr_ObjectMeta vr)) vr) = None"
    and "fst (ensureVirtualRouterRole imp c (Name (vr_ObjectMeta vr)) vr) = None"
    and "fst (ensureVirtualRouterRoleBinding imp c (Name (vr_ObjectMeta vr)) vr) = None"
    and "deploymentsLister c (Name (vr_ObjectMeta vr)) (DeploymentName (vr_Spec vr)) = Inr d"
    and "IsControlledBy (depl_ObjectMeta d) (vr_ObjectMeta vr)"
  shows "(Replicas (vr_Spec vr) = None \<longrightarrow>
            filter is_deployment_update (snd (syncHandler imp c key)) = [])
       \<and> (\<forall>n m. Replicas (vr_Spec vr) = Some n \<and> depl_Replicas (depl_Spec d) = Some m \<longrightarrow>
            filter is_deployment_update (snd (syncHandler imp c key))
              = (if n \<noteq> m
                 then [DeploymentsUpdate (Name (vr_ObjectMeta vr))
                         (newDeployment imp (Name (vr_ObjectMeta vr)) vr)]
                 else []))
       \<and> filter is_deployment_create (snd (syncHandler imp c key)) = []"
  using converge_update_calls [OF assms(9), of imp c name "Name (vr_ObjectMeta vr)"]
  unfolding sync_owned [OF assms(1-8)]
  by simp

theorem owned_deployment_replica_update_witness:
  "filter is_deployment_update
     (snd (syncHandler imports0
             (fakeController (Some (router_r1 (Some 3) 0)) True True (Some owned_d1) (AOther, True))
             ''default/r1''))
     = [DeploymentsUpdate ''r1'' (newDeployment imports0 ''r1'' (router_r1 (Some 3) 0))]
   \<and> filter is_deployment_update
     (snd (syncHandler imports0
             (fakeController (Some (router_r1 (Some 2) 0)) True True (Some owned_d1) (AOther, True))
             ''default/r1'')) = []
   \<and> filter is_deployment_create
     (snd (syncHandler imports0
             (fakeController (Some (router_r1 (Some 3) 0)) True True (Some owned_d1) (AOther, True))
             ''default/r1'')) = []"
  using owned_deployment_replica_update
    [where key = "''default/r1''" and namespace = "''default''" and name = "''r1''"
       and c = "fakeController (Some (router_r1 (Some 3) 0)) True True (Some owned_d1) (AOther, True)"
       and vr = "router_r1 (Some 3) 0" and imp = imports0 and d = owned_d1,
     OF key_default_r1]
    owned_deployment_replica_update
    [where key = "''default/r1''" and namespace = "''default''" and name = "''r1''"
       and c = "fakeController (Some (router_r1 (Some 2) 0)) True True (Some owned_d1) (AOther, True)"
       and vr = "router_r1 (Some 2) 0" and imp = imports0 and d = owned_d1,
     OF key_default_r1]
  by simp

subsection \<open>A sync on a converged cluster\<close>

text \<open>
  C1 as the code has it. When the supporting objects all exist, the lister holds the
  Deployment, controlled by the VirtualRouter, and the intent either gives no replica
  count or gives the one the Deployment has, a sync issues no create and no Deployment
  update; it issues exactly one write, the status update of the intent object, which
  syncHandler performs on every pass that gets this far. The body of that write is the
  cached object with Status.AvailableReplicas taken from the Deployment, hence the cached
  object itself when its status already agrees.
\<close>

theorem converged_sync_writes_status_only:
  assumes "SplitMetaNamespaceKey key = Inr (namespace, name)"
    and "virtualRoutersLister c namespace name = Inr vr"
    and "DeploymentName (vr_Spec vr) \<noteq> []"
    and "Namespaces_Get c (Name (vr_ObjectMeta vr)) = None"
    and "ServiceAccounts_Get c (Name (vr_ObjectMeta vr)) SERVICE_ACCOUNT_NAME = None"
    and "Roles_Get c (Name (vr_ObjectMeta vr)) ROLE_NAME = None"
    and "RoleBindings_Get c (Name (vr_ObjectMeta vr)) ROLE_BINDING_NAME = None"
    and "deploymentsLister c (Name (vr_ObjectMeta vr)) (DeploymentName (vr_Spec vr)) = Inr d"
    and "IsControlledBy (depl_ObjectMeta d) (vr_ObjectMeta vr)"
    and "Replicas (vr_Spec vr) = None \<or> Replicas (vr_Spec vr) = depl_Replicas (depl_Spec d)"
  shows "writes (snd (syncHandler imp c key))
           = [VirtualRoutersUpdate (Namespace (vr_ObjectMeta vr))
                (vr\<lparr>vr_Status := (vr_Status vr)
                      \<lparr>AvailableReplicas := depl_AvailableReplicas (depl_Status d)\<rparr>\<rparr>)]
       \<and> (AvailableReplicas (vr_Status vr) = depl_AvailableReplicas (depl_Status d) \<longrightarrow>
            writes (snd (syncHandler imp c key))
              = [VirtualRoutersUpdate (Namespace (vr_ObjectMeta vr)) vr])"
proof -
  note p = ensure_present(1) [OF assms(4), of imp vr] ensure_present(2) [OF assms(5), of imp vr]
    ensure_present(3) [OF assms(6), of imp vr] ensure_present(4) [OF assms(7), of imp vr]
  have eq: "syncHandler imp c key =
     after ([KlogInfo [ArgStr key], VirtualRoutersListerGet namespace name,
             NamespacesGet (Name (vr_ObjectMeta vr)),
             ServiceAccountsGet (Name (vr_ObjectMeta vr)) SERVICE_ACCOUNT_NAME,
             RolesGet (Name (vr_ObjectMeta vr)) ROLE_NAME,
             RoleBindingsGet (Name (vr_ObjectMeta vr)) ROLE_BINDING_NAME,
             DeploymentsListerGet (Name (vr_ObjectMeta vr)) (DeploymentName (vr_Spec vr))])
       (syncHandler_converge imp c name vr (Name (vr_ObjectMeta vr)) d)"
    using sync_owned [OF assms(1-3) _ _ _ _ assms(8), of imp] by (simp add: p)
  have conv: "syncHandler_converge imp c name vr (Name (vr_ObjectMeta vr)) d
                = syncHandler_status c vr d"
  proof (cases "Replicas (vr_Spec vr)")
    case None
    with assms(9) show ?thesis by (simp add: converge_unmanaged_replicas)
  next
    case (Some n)
    with assms(10) have "depl_Replicas (depl_Spec d) = Some n" by simp
    with assms(9) Some show ?thesis by (simp add: converge_equal_replicas)
  qed
  have w: "writes (snd (syncHandler imp c key))
           = [VirtualRoutersUpdate (Namespace (vr_ObjectMeta vr))
                (vr\<lparr>vr_Status := (vr_Status vr)
                      \<lparr>AvailableReplicas := depl_AvailableReplicas (depl_Status d)\<rparr>\<rparr>)]"
    by (simp add: eq conv writes_def)
  have "AvailableReplicas (vr_Status vr) = depl_AvailableReplicas (depl_Status d) \<Longrightarrow>
          vr\<lparr>vr_Status := (vr_Status vr)
               \<lparr>AvailableReplicas := depl_AvailableReplicas (depl_Status d)\<rparr>\<rparr> = vr"
    by (cases vr) simp
  with w show ?thesis by simp
qed

theorem second_sync_still_writes_counterexample:
  "deploymentsLister
     (fakeController (Some (router_r1 (Some 2) 2)) True True (Some owned_d1) (AOther, True))
     ''r1'' ''d1'' = Inr owned_d1
   \<and> IsControlledBy (depl_ObjectMeta owned_d1) (vr_ObjectMeta (router_r1 (Some 2) 2))
   \<and> depl_Replicas (depl_Spec owned_d1) = Replicas (vr_Spec (router_r1 (Some 2) 2))
   \<and> depl_AvailableReplicas (depl_Status owned_d1) = AvailableReplicas (vr_Status (router_r1 (Some 2) 2))
   \<and> writes (snd (syncHandler imports0
        (fakeController (Some (router_r1 (Some 2) 2)) True True (Some owned_d1) (AOther, True))
        ''default/r1''))
      = [VirtualRoutersUpdate ''default'' (router_r1 (Some 2) 2)]
   \<and> writes (snd (syncHandler imports0
        (fakeController (Some (router_r1 (Some 2) 2)) True True (Some owned_d1) (AOther, True))
        ''default/r1'')) \<noteq> []"
proof -
  have "(router_r1 (Some 2) 2)\<lparr>vr_Status := (vr_Status (router_r1 (Some 2) 2))\<lparr>AvailableReplicas := 2\<rparr>\<rparr>
          = router_r1 (Some 2) 2"
    by (simp add: router_r1_def)
  then show ?thesis
    by (simp add: fake_sync_r1 syncHandler_deployment_found converge_equal_replicas [where n = 2]
          syncHandler_status_eq after_def writes_def router_r1_def [of "Some 2" 2, THEN arg_cong [where f = vr_Status]])
qed

theorem converged_sync_writes_status_only_witness:
  "writes (snd (syncHandler imports0
        (fakeController (Some (router_r1 (Some 2) 2)) True True (Some owned_d1) (AOther, True))
        ''default/r1''))
      = [VirtualRoutersUpdate ''default'' (router_r1 (Some 2) 2)]"
  using converged_sync_writes_status_only
    [where key = "''default/r1''" and namespace = "''default''" and name = "''r1''"
       and c = "fakeController (Some (router_r1 (Some 2) 2)) True True (Some owned_d1) (AOther, True)"
       and vr = "router_r1 (Some 2) 2" and imp = imports0 and d = owned_d1,
     OF key_default_r1]
  by (simp add: router_r1_def [of "Some 2" 2, THEN arg_cong [where f = vr_Status]])

subsection \<open>The worker\<close>

lemma sync_no_queue_calls: "filter is_queue_call (snd (syncHandler imp c key)) = []"
  by (simp add: syncHandler_def Let_def case_prod_beta split: sum.splits option.splits)

lemma processNextWorkItem_string:
  assumes "workqueue_Get c = (AString key, False)"
  shows "processNextWorkItem imp c =
     (case fst (syncHandler imp c key) of
        Panic \<Rightarrow>
          (Panic, [WorkqueueGet] @ snd (syncHandler imp c key) @ [WorkqueueDone (AString key)])
      | Return None \<Rightarrow>
          (Return True,
           [WorkqueueGet] @ snd (syncHandler imp c key)
           @ [WorkqueueForget (AString key),
              KlogInfof (''Successfully synced '%s'' @ [CHR 0x27]) [ArgStr key],
              WorkqueueDone (AString key)])
      | Return (Some err) \<Rightarrow>
          (Return True,
           [WorkqueueGet] @ snd (syncHandler imp c key)
           @ [WorkqueueAddRateLimited key, WorkqueueDone (AString key),
              HandleError (Errorf ''error syncing '%s': %s, requeuing''
                             [ArgStr key, ArgError err])]))"
  using assms
  by (simp add: processNextWorkItem_def Let_def case_prod_beta split: go.splits option.splits)

lemma processNextWorkItem_other:
  assumes "workqueue_Get c = (obj, False)" and "\<forall>key. obj \<noteq> AString key"
  shows "processNextWorkItem imp c =
     (Return True,
      [WorkqueueGet, WorkqueueForget obj,
       HandleError (Errorf ''expected string in workqueue but got %#v'' [ArgAny obj]),
       WorkqueueDone obj])"
  using assms
  by (cases obj) (simp_all add: processNextWorkItem_def Let_def)

text \<open>
  C4. When the queue reports shutdown, processNextWorkItem returns false and makes no
  further queue call. Otherwise, for the item it got, it calls Done exactly once, also
  when syncHandler panics (the call is deferred); the queue calls after Get are Forget
  then Done when syncHandler returns nil, AddRateLimited then Done when it returns an
  error, and Forget then Done for an item that is not a string. In all three cases it
  returns true: it returns false only on shutdown.
\<close>

theorem processNextWorkItem_queue_protocol:
  "(snd (workqueue_Get c) \<longrightarrow> processNextWorkItem imp c = (Return False, [WorkqueueGet]))
   \<and> (\<not> snd (workqueue_Get c) \<longrightarrow>
        fst (processNextWorkItem imp c) \<noteq> Return False
        \<and> (\<forall>key. fst (workqueue_Get c) = AString key \<longrightarrow>
             (fst (syncHandler imp c key) = Return None \<longrightarrow>
                fst (processNextWorkItem imp c) = Return True
                \<and> filter is_queue_call (snd (processNextWorkItem imp c))
                    = [WorkqueueGet, WorkqueueForget (AString key), WorkqueueDone (AString key)])
           \<and> (\<forall>err. fst (syncHandler imp c key) = Return (Some err) \<longrightarrow>
                fst (processNextWorkItem imp c) = Return True
                \<and> filter is_queue_call (snd (processNextWorkItem imp c))
                    = [WorkqueueGet, WorkqueueAddRateLimited key, WorkqueueDone (AString key)])
           \<and> (fst (syncHandler imp c key) = Panic \<longrightarrow>
                fst (processNextWorkItem imp c) = Panic
                \<and> filter is_queue_call (snd (processNextWorkItem imp c))
                    = [WorkqueueGet, WorkqueueDone (AString key)]))
        \<and> ((\<forall>key. fst (workqueue_Get c) \<noteq> AString key) \<longrightarrow>
             fst (processNextWorkItem imp c) = Return True
             \<and> filter is_queue_call (snd (processNextWorkItem imp c))
                 = [WorkqueueGet, WorkqueueForget (fst (workqueue_Get c)),
                    WorkqueueDone (fst (workqueue_Get c))]))"
proof (cases "snd (workqueue_Get c)")
  case True
  then show ?thesis by (simp add: processNextWorkItem_def case_prod_beta)
next
  case False
  then have g: "workqueue_Get c = (fst (workqueue_Get c), False)"
    by (cases "workqueue_Get c") simp
  have str: "fst (workqueue_Get c) = AString key \<Longrightarrow>
          processNextWorkItem imp c =
     (case fst (syncHandler imp c key) of
        Panic \<Rightarrow>
          (Panic, [WorkqueueGet] @ snd (syncHandler imp c key) @ [WorkqueueDone (AString key)])
      | Return None \<Rightarrow>
          (Return True,
           [WorkqueueGet] @ snd (syncHandler imp c key)
           @ [WorkqueueForget (AString key),
              KlogInfof (''Successfully synced '%s'' @ [CHR 0x27]) [ArgStr key],
              WorkqueueDone (AString key)])
      | Return (Some err) \<Rightarrow>
          (Return True,
           [WorkqueueGet] @ snd (syncHandler imp c key)
           @ [WorkqueueAddRateLimited key, WorkqueueDone (AString key),
              HandleError (Errorf ''error syncing '%s': %s, requeuing''
                             [ArgStr key, ArgError err])]))" for key
    using g by (intro processNextWorkItem_string) simp
  have other: "\<forall>key. fst (workqueue_Get c) \<noteq> AString key \<Longrightarrow>
          processNextWorkItem imp c =
     (Return True,
      [WorkqueueGet, WorkqueueForget (fst (workqueue_Get c)),
       HandleError (Errorf ''expected string in workqueue but got %#v'' [ArgAny (fst (workqueue_Get c))]),
       WorkqueueDone (fst (workqueue_Get c))])"
    using g by (intro processNextWorkItem_other) simp_all
  have nonfalse: "fst (processNextWorkItem imp c) \<noteq> Return False"
  proof (cases "\<exists>key. fst (workqueue_Get c) = AString key")
    case True
    then obtain key where "fst (workqueue_Get c) = AString key" by blast
    from str [OF this] show ?thesis by (simp split: go.splits option.splits)
  next
    case False
    then have "\<forall>key. fst (workqueue_Get c) \<noteq> AString key" by simp
    from other [OF this] show ?thesis by simp
  qed
  from False nonfalse show ?thesis
    by (auto simp add: str other sync_no_queue_calls)
qed

theorem processNextWorkItem_queue_protocol_witness:
  "processNextWorkItem imports0
     (fakeController (Some (router_r1 (Some 2) 0)) True True (Some owned_d1) (AOther, True))
     = (Return False, [WorkqueueGet])
   \<and> fst (processNextWorkItem imports0
        (fakeController (Some (router_r1 (Some 2) 0)) True True (Some owned_d1)
           (AString ''default/r1'', False))) = Return True
   \<and> filter is_queue_call (snd (processNextWorkItem imports0
        (fakeController (Some (router_r1 (Some 2) 0)) True True (Some owned_d1)
           (AString ''default/r1'', False))))
       = [WorkqueueGet, WorkqueueForget (AString ''default/r1''),
          WorkqueueDone (AString ''default/r1'')]
   \<and> fst (processNextWorkItem imports0
        (fakeController (Some (router_r1 (Some 2) 0)) True False (Some foreign_d1)
           (AString ''default/r1'', False))) = Return True
   \<and> filter is_queue_call (snd (processNextWorkItem imports0
        (fakeController (Some (router_r1 (Some 2) 0)) True False (Some foreign_d1)
           (AString ''default/r1'', False))))
       = [WorkqueueGet, WorkqueueAddRateLimited ''default/r1'',
          WorkqueueDone (AString ''default/r1'')]"
  using processNextWorkItem_queue_protocol
      [of "fakeController (Some (router_r1 (Some 2) 0)) True True (Some owned_d1) (AOther, True)"
          imports0]
    processNextWorkItem_queue_protocol
      [of "fakeController (Some (router_r1 (Some 2) 0)) True True (Some owned_d1)
             (AString ''default/r1'', False)" imports0]
    processNextWorkItem_queue_protocol
      [of "fakeController (Some (router_r1 (Some 2) 0)) True False (Some foreign_d1)
             (AString ''default/r1'', False)" imports0]
  by (simp add: fake_sync_converged fake_sync_foreign)

subsection \<open>Event routing\<close>

lemma enqueueVirtualRouter_router:
  "enqueueVirtualRouter (AVirtualRouter v) =
     [WorkqueueAdd (if Namespace (vr_ObjectMeta v) \<noteq> []
                    then Namespace (vr_ObjectMeta v) @ ''/'' @ Name (vr_ObjectMeta v)
                    else Name (vr_ObjectMeta v))]"
  by (simp add: enqueueVirtualRouter_def MetaNamespaceKeyFunc_def)

text \<open>
  C9 as the code has it. The comparison of resource versions is part of the Deployment
  informer's update handler only: an update event for a Deployment whose old and new
  resource versions are identical has no effect at all, and one whose versions differ is
  handed to handleObject. The VirtualRouter informer's update handler makes no such
  comparison: every update event for an intent object, a periodic resync included,
  enqueues the key of the new object.
\<close>

theorem update_event_routing:
  "(ResourceVersion (depl_ObjectMeta newDepl) = ResourceVersion (depl_ObjectMeta oldDepl) \<longrightarrow>
      deploymentUpdateFunc c (ADeployment oldDepl) (ADeployment newDepl) = (Return (), []))
   \<and> (ResourceVersion (depl_ObjectMeta newDepl) \<noteq> ResourceVersion (depl_ObjectMeta oldDepl) \<longrightarrow>
      deploymentUpdateFunc c (ADeployment oldDepl) (ADeployment newDepl)
        = (Return (), handleObject c (ADeployment newDepl)))
   \<and> virtualRouterUpdateFunc old (AVirtualRouter new) =
       [WorkqueueAdd (if Namespace (vr_ObjectMeta new) \<noteq> []
                      then Namespace (vr_ObjectMeta new) @ ''/'' @ Name (vr_ObjectMeta new)
                      else Name (vr_ObjectMeta new))]"
  by (simp add: deploymentUpdateFunc_def virtualRouterUpdateFunc_def enqueueVirtualRouter_router)

theorem update_event_routing_witness:
  "deploymentUpdateFunc
     (fakeController (Some (router_r1 (Some 2) 0)) True True (Some owned_d1) (AOther, True))
     (ADeployment owned_d1) (ADeployment owned_d1) = (Return (), [])
   \<and> deploymentUpdateFunc
     (fakeController (Some (router_r1 (Some 2) 0)) True True (Some owned_d1) (AOther, True))
     (ADeployment owned_d1)
     (ADeployment (owned_d1\<lparr>depl_ObjectMeta := (depl_ObjectMeta owned_d1)\<lparr>ResourceVersion := ''8''\<rparr>\<rparr>))
     = (Return (),
        handleObject
          (fakeController (Some (router_r1 (Some 2) 0)) True True (Some owned_d1) (AOther, True))
          (ADeployment (owned_d1\<lparr>depl_ObjectMeta := (depl_ObjectMeta owned_d1)\<lparr>ResourceVersion := ''8''\<rparr>\<rparr>)))
   \<and> virtualRouterUpdateFunc (AVirtualRouter (router_r1 (Some 2) 0))
        (AVirtualRouter (router_r1 (Some 3) 0)) = [WorkqueueAdd ''default/r1'']"
  using update_event_routing
      [of owned_d1 owned_d1
          "fakeController (Some (router_r1 (Some 2) 0)) True True (Some owned_d1) (AOther, True)"
          "AVirtualRouter (router_r1 (Some 2) 0)" "router_r1 (Some 3) 0"]
    update_event_routing
      [of "owned_d1\<lparr>depl_ObjectMeta := (depl_ObjectMeta owned_d1)\<lparr>ResourceVersion := ''8''\<rparr>\<rparr>" owned_d1
          "fakeController (Some (router_r1 (Some 2) 0)) True True (Some owned_d1) (AOther, True)"
          "AVirtualRouter (router_r1 (Some 2) 0)" "router_r1 (Some 3) 0"]
  by (simp add: owned_d1_def newDeployment_def Let_def ObjectMeta_zero_def)

theorem resync_of_intent_enqueues_counterexample:
  "ResourceVersion (vr_ObjectMeta (router_r1 (Some 2) 0))
     = ResourceVersion (vr_ObjectMeta (router_r1 (Some 2) 0))
   \<and> filter is_queue_call
        (virtualRouterUpdateFunc (AVirtualRouter (router_r1 (Some 2) 0))
           (AVirtualRouter (router_r1 (Some 2) 0)))
       = [WorkqueueAdd ''default/r1'']
   \<and> filter is_queue_call
        (virtualRouterUpdateFunc (AVirtualRouter (router_r1 (Some 2) 0))
           (AVirtualRouter (router_r1 (Some 2) 0))) \<noteq> []"
  by (simp add: virtualRouterUpdateFunc_def enqueueVirtualRouter_router)

text \<open>
  What handleObject enqueues for a Deployment. The owner is looked up in the lister under
  the Deployment's own namespace, which for a Deployment made by newDeployment is the
  private namespace, named after the VirtualRouter.
\<close>

lemma handleObject_deployment:
  "filter is_queue_call (handleObject c (ADeployment d)) =
     (case GetControllerOf (depl_ObjectMeta d) of
        None \<Rightarrow> []
      | Some ownerRef \<Rightarrow>
          if ref_Kind ownerRef \<noteq> ''VirtualRouter'' then []
          else (case virtualRoutersLister c (Namespace (depl_ObjectMeta d)) (ref_Name ownerRef) of
                  Inl err \<Rightarrow> []
                | Inr owner \<Rightarrow>
                    [WorkqueueAdd (if Namespace (vr_ObjectMeta owner) \<noteq> []
                                   then Namespace (vr_ObjectMeta owner) @ ''/'' @ Name (vr_ObjectMeta owner)
                                   else Name (vr_ObjectMeta owner))]))"
  by (simp add: handleObject_def Let_def enqueueVirtualRouter_router split: option.splits sum.splits)

lemma handleObject_own_deployment:
  "filter is_queue_call
     (handleObject
        (fakeController (Some (router_r1 (Some 2) 0)) True True (Some owned_d1) (AOther, True))
        (ADeployment owned_d1)) = []"
  by (simp add: handleObject_deployment fakeController_def owned_d1_def newDeployment_def Let_def
        ObjectMeta_zero_def GetControllerOf_def NewControllerRef_def WithKind_def)

subsection \<open>The replica comparison\<close>









lemma defaultingController_fields [simp]:
  "virtualRoutersLister (defaultingController v s s' d q) = virtualRoutersLister (fakeController v s s' d q)"
  "deploymentsLister (defaultingController v s s' d q) = deploymentsLister (fakeController v s s' d q)"
  "Namespaces_Get (defaultingController v s s' d q) = Namespaces_Get (fakeController v s s' d q)"
  "ServiceAccounts_Get (defaultingController v s s' d q) = ServiceAccounts_Get (fakeController v s s' d q)"
  "Roles_Get (defaultingController v s s' d q) = Roles_Get (fakeController v s s' d q)"
  "RoleBindings_Get (defaultingController v s s' d q) = RoleBindings_Get (fakeController v s s' d q)"
  "VirtualRouters_Update (defaultingController v s s' d q) = VirtualRouters_Update (fakeController v s s' d q)"
  "klog_v (defaultingController v s s' d q) = 0"
  "Deployments_Create (defaultingController v s s' d q) ns obj = Inr (SetDefaults_Deployment obj)"
  "Deployments_Update (defaultingController v s s' d q) ns obj = Inr (SetDefaults_Deployment obj)"
  by (simp_all add: defaultingController_def)

lemma stored_d1_fields [simp]:
  "Name (depl_ObjectMeta stored_d1) = ''d1''"
  "Namespace (depl_ObjectMeta stored_d1) = ''r1''"
  "depl_Replicas (depl_Spec stored_d1) = Some 1"
  "IsControlledBy (depl_ObjectMeta stored_d1) (vr_ObjectMeta (router_r1 r a))"
  by (simp_all add: stored_d1_def SetDefaults_Deployment_def newDeployment_def Let_def
        ObjectMeta_zero_def IsControlledBy_def GetControllerOf_def NewControllerRef_def)




end
